theory Spec2Isabelle
  imports Complex_Main
begin

section \<open>Strings\<close>

text \<open>
  A JavaScript string is a sequence of UTF-16 code units. The model uses \<^typ>\<open>string\<close>:
  the code units 0..255 (ASCII and Latin-1). Every pattern and keyword of the program is
  ASCII. On this range \<open>toLowerCase\<close> maps \<open>A..Z\<close> and the Latin-1 capitals (code
  units 192..222 except 215) to the code unit 32 above; the comparison of a regular
  expression with the flag \<open>i\<close> folds \<open>A..Z\<close> only.
\<close>

definition upper_letters :: string where
  "upper_letters = ''ABCDEFGHIJKLMNOPQRSTUVWXYZ''"

definition lower_letters :: string where
  "lower_letters = ''abcdefghijklmnopqrstuvwxyz''"

definition latin1_capitals :: string where
  "latin1_capitals =
     [CHR 0xC0, CHR 0xC1, CHR 0xC2, CHR 0xC3, CHR 0xC4, CHR 0xC5, CHR 0xC6, CHR 0xC7,
      CHR 0xC8, CHR 0xC9, CHR 0xCA, CHR 0xCB, CHR 0xCC, CHR 0xCD, CHR 0xCE, CHR 0xCF,
      CHR 0xD0, CHR 0xD1, CHR 0xD2, CHR 0xD3, CHR 0xD4, CHR 0xD5, CHR 0xD6,
      CHR 0xD8, CHR 0xD9, CHR 0xDA, CHR 0xDB, CHR 0xDC, CHR 0xDD, CHR 0xDE]"

definition latin1_smalls :: string where
  "latin1_smalls =
     [CHR 0xE0, CHR 0xE1, CHR 0xE2, CHR 0xE3, CHR 0xE4, CHR 0xE5, CHR 0xE6, CHR 0xE7,
      CHR 0xE8, CHR 0xE9, CHR 0xEA, CHR 0xEB, CHR 0xEC, CHR 0xED, CHR 0xEE, CHR 0xEF,
      CHR 0xF0, CHR 0xF1, CHR 0xF2, CHR 0xF3, CHR 0xF4, CHR 0xF5, CHR 0xF6,
      CHR 0xF8, CHR 0xF9, CHR 0xFA, CHR 0xFB, CHR 0xFC, CHR 0xFD, CHR 0xFE]"

definition fold_char :: "char \<Rightarrow> char" where
  "fold_char c = (case map_of (zip upper_letters lower_letters) c of Some l \<Rightarrow> l | None \<Rightarrow> c)"

definition toLowerCase_char :: "char \<Rightarrow> char" where
  "toLowerCase_char c =
     (case map_of (zip (upper_letters @ latin1_capitals) (lower_letters @ latin1_smalls)) c of
        Some l \<Rightarrow> l
      | None \<Rightarrow> c)"

definition toLowerCase :: "string \<Rightarrow> string" where
  "toLowerCase s = map toLowerCase_char s"

definition startsWith :: "string \<Rightarrow> string \<Rightarrow> bool" where
  "startsWith s p = (take (length p) s = p)"

text \<open>\<open>s.includes(sub)\<close>: \<open>sub\<close> occurs at some position of \<open>s\<close>.\<close>

fun str_includes :: "string \<Rightarrow> string \<Rightarrow> bool" where
  "str_includes [] sub = (sub = [])"
| "str_includes (c # cs) sub = (startsWith (c # cs) sub \<or> str_includes cs sub)"

text \<open>White space and line terminators of ECMAScript, below code unit 256.\<close>

definition is_space :: "char \<Rightarrow> bool" where
  "is_space c =
     (c \<in> set [CHR 0x09, CHR 0x0A, CHR 0x0B, CHR 0x0C, CHR 0x0D, CHR 0x20, CHR 0xA0])"

definition is_line_terminator :: "char \<Rightarrow> bool" where
  "is_line_terminator c = (c \<in> set [CHR 0x0A, CHR 0x0D])"

definition is_digit :: "char \<Rightarrow> bool" where
  "is_digit c = (c \<in> set ''0123456789'')"

definition is_ascii_letter :: "char \<Rightarrow> bool" where
  "is_ascii_letter c = (c \<in> set (lower_letters @ upper_letters))"

text \<open>The class \<open>\w\<close> of a regular expression: \<open>[A-Za-z0-9_]\<close>.\<close>

definition is_word_char :: "char \<Rightarrow> bool" where
  "is_word_char c = (is_ascii_letter c \<or> is_digit c \<or> c = CHR ''_'')"

definition trimStart :: "string \<Rightarrow> string" where
  "trimStart s = dropWhile is_space s"

definition trim :: "string \<Rightarrow> string" where
  "trim s = rev (dropWhile is_space (rev (dropWhile is_space s)))"

text \<open>\<open>xs.join(sep)\<close> on strings.\<close>

fun join :: "string \<Rightarrow> string list \<Rightarrow> string" where
  "join sep [] = []"
| "join sep [x] = x"
| "join sep (x # y # ys) = x @ sep @ join sep (y # ys)"

text \<open>Decimal digits of a natural number, as \<open>String(n)\<close> prints an integer.\<close>

fun digits_of :: "nat \<Rightarrow> string" where
  "digits_of n =
     (if n < 10 then [''0123456789'' ! n] else digits_of (n div 10) @ [''0123456789'' ! (n mod 10)])"

definition digit_value :: "char \<Rightarrow> int" where
  "digit_value c =
     (case map_of (zip ''0123456789'' [0, 1, 2, 3, 4, 5, 6, 7, 8, 9]) c of Some d \<Rightarrow> d | None \<Rightarrow> 0)"

definition dec_value :: "string \<Rightarrow> int" where
  "dec_value ds = foldl (\<lambda>a c. 10 * a + digit_value c) 0 ds"

section \<open>Numbers\<close>

text \<open>
  A JavaScript number is an IEEE 754 double. A finite one is \<open>Fin q\<close> with \<open>q\<close> its
  value; the two zeros are one value (the program compares with \<open>!== 0\<close>, which does not
  tell them apart). The result of an operation is the exact result rounded to the nearest
  double, ties to the even significand, as \<open>round_double\<close> does: the significand has 53
  bits, the exponent of its last bit is at least -1074, and a result of magnitude
  \<open>2 ^ 1024\<close> or more is infinite.
\<close>

datatype jsnum = Fin rat | PosInf | NegInf | NaN

text \<open>The number of binary digits of a positive integer.\<close>

function bit_length :: "int \<Rightarrow> int" where
  "bit_length n = (if n \<le> 0 then 0 else 1 + bit_length (n div 2))"
  by pat_completeness auto
termination
  by (relation "measure nat") auto

text \<open>
  For \<open>q = n / d\<close>: \<open>ex\<close> is the exponent of the leading bit of \<open>q\<close>, \<open>e\<close> the
  exponent of the last bit kept, \<open>m\<close> the significand \<open>q / 2 ^ e\<close> rounded to an integer,
  half to even.
\<close>

definition round_double :: "rat \<Rightarrow> jsnum" where
  "round_double q =
     (if q = 0 then Fin 0
      else
        (let (n0, d) = quotient_of q;
             n = \<bar>n0\<bar>;
             k = bit_length n - bit_length d;
             ex = (if (if 0 \<le> k then d * 2 ^ nat k \<le> n else d \<le> n * 2 ^ nat (- k))
                   then k else k - 1);
             e = max (ex - 52) (- 1074);
             num = (if e < 0 then n * 2 ^ nat (- e) else n);
             den = (if e < 0 then d else d * 2 ^ nat e);
             m0 = num div den;
             r = num mod den;
             m = (if den < 2 * r \<or> (2 * r = den \<and> odd m0) then m0 + 1 else m0)
         in if m = 0 then Fin 0
            else if 971 < e \<or> (e = 971 \<and> 2 ^ 53 \<le> m)
            then (if n0 < 0 then NegInf else PosInf)
            else Fin (Fract ((if n0 < 0 then - m else m) * (if e < 0 then 1 else 2 ^ nat e))
                            (if e < 0 then 2 ^ nat (- e) else 1))))"

text \<open>
  Addition of doubles: the special values as IEEE 754 has them; a number plus zero is that
  number; any other sum is the exact sum, rounded.
\<close>

fun js_add :: "jsnum \<Rightarrow> jsnum \<Rightarrow> jsnum" where
  "js_add NaN _ = NaN"
| "js_add _ NaN = NaN"
| "js_add PosInf NegInf = NaN"
| "js_add NegInf PosInf = NaN"
| "js_add PosInf _ = PosInf"
| "js_add _ PosInf = PosInf"
| "js_add NegInf _ = NegInf"
| "js_add _ NegInf = NegInf"
| "js_add (Fin a) (Fin b) =
     (if b = 0 then Fin a else if a = 0 then Fin b else round_double (a + b))"

definition isNaN :: "jsnum \<Rightarrow> bool" where
  "isNaN n = (n = NaN)"

text \<open>
  \<open>parseFloat\<close> (ECMAScript 19.2.4): leading white space is dropped, then the longest
  prefix that is a \<open>StrDecimalLiteral\<close> is read: an optional sign, then \<open>Infinity\<close> or
  digits with an optional fraction and an optional exponent. No such prefix: \<open>NaN\<close>.
  \<open>strDecimalLiteral\<close> returns the value of that prefix, rounded to the nearest double,
  and the rest of the string.
\<close>

definition exponentPart :: "string \<Rightarrow> int \<times> string" where
  "exponentPart r =
     (case r of
        [] \<Rightarrow> (0, r)
      | c # r1 \<Rightarrow>
          if c = CHR ''e'' \<or> c = CHR ''E'' then
            (let (neg, r2) = (case r1 of
                                [] \<Rightarrow> (False, r1)
                              | d # r' \<Rightarrow> if d = CHR ''-'' then (True, r')
                                          else if d = CHR ''+'' then (False, r')
                                          else (False, r1));
                 ds = takeWhile is_digit r2
             in if ds = [] then (0, r)
                else ((if neg then - dec_value ds else dec_value ds),
                      dropWhile is_digit r2))
          else (0, r))"

definition scale10 :: "rat \<Rightarrow> int \<Rightarrow> rat" where
  "scale10 m e = (if 0 \<le> e then m * 10 ^ nat e else m / 10 ^ nat (- e))"

definition strDecimalLiteral :: "string \<Rightarrow> (jsnum \<times> string) option" where
  "strDecimalLiteral s =
     (let (neg, s2) = (case s of
                         [] \<Rightarrow> (False, s)
                       | c # r \<Rightarrow> if c = CHR ''-'' then (True, r)
                                  else if c = CHR ''+'' then (False, r)
                                  else (False, s))
      in if startsWith s2 ''Infinity''
         then Some (if neg then NegInf else PosInf, drop 8 s2)
         else
           (let ip = takeWhile is_digit s2;
                r1 = dropWhile is_digit s2;
                (fp, r2) = (case r1 of
                              [] \<Rightarrow> ([], r1)
                            | c # r \<Rightarrow> if c = CHR ''.''
                                       then (takeWhile is_digit r, dropWhile is_digit r)
                                       else ([], r1))
            in if ip = [] \<and> fp = [] then None
               else
                 (let m = of_int (dec_value ip) + of_int (dec_value fp) / 10 ^ length fp;
                      (e, r3) = exponentPart r2
                  in Some (round_double (scale10 (if neg then - m else m) e), r3))))"

definition parseFloat :: "string \<Rightarrow> jsnum" where
  "parseFloat s = (case strDecimalLiteral (trimStart s) of None \<Rightarrow> NaN | Some (v, _) \<Rightarrow> v)"

section \<open>Regular expressions\<close>

text \<open>
  The patterns of the program are built from literals, \<open>\b\<close>, alternatives, sequences
  and repetitions of one character class. \<open>ends r s i\<close> lists the positions where a
  match of \<open>r\<close> that starts at position \<open>i\<close> of \<open>s\<close> can end, in the order in which a
  backtracking matcher tries them: the left alternative first, the longest repetition first
  when greedy and the shortest first when lazy. Every pattern of the program has the flag
  \<open>i\<close>, its literals are written in lower case here and its classes hold both cases of a
  letter: a pattern is matched against the input with \<open>A..Z\<close> folded (\<open>fold_case\<close>), and
  the positions found are positions of the input.
\<close>

datatype rx =
    Lit string
  | WordB
  | Rep "char \<Rightarrow> bool" bool nat
  | Seq rx rx
  | Alt rx rx
  | Eps

definition wordBoundary :: "string \<Rightarrow> nat \<Rightarrow> bool" where
  "wordBoundary s i =
     ((0 < i \<and> i \<le> length s \<and> is_word_char (s ! (i - 1))) \<noteq> (i < length s \<and> is_word_char (s ! i)))"

fun ends :: "rx \<Rightarrow> string \<Rightarrow> nat \<Rightarrow> nat list" where
  "ends (Lit w) s i = (if take (length w) (drop i s) = w then [i + length w] else [])"
| "ends WordB s i = (if wordBoundary s i then [i] else [])"
| "ends (Rep P greedy m) s i =
     (let n = length (takeWhile P (drop i s));
          js = map (\<lambda>k. i + k) [m..<Suc n]
      in if greedy then rev js else js)"
| "ends (Seq a b) s i = concat (map (ends b s) (ends a s i))"
| "ends (Alt a b) s i = ends a s i @ ends b s i"
| "ends Eps s i = [i]"

text \<open>\<open>r.test(s)\<close>: some position starts a match.\<close>

definition fold_case :: "string \<Rightarrow> string" where
  "fold_case s = map fold_char s"

definition rx_test :: "rx \<Rightarrow> string \<Rightarrow> bool" where
  "rx_test r s = (let f = fold_case s in list_ex (\<lambda>i. ends r f i \<noteq> []) [0..<Suc (length s)])"

text \<open>\<open>s.match(r)\<close> without the \<open>g\<close> flag: the leftmost start and the first end tried.\<close>

definition rx_match_from :: "rx \<Rightarrow> string \<Rightarrow> nat \<Rightarrow> (nat \<times> nat) option" where
  "rx_match_from r s k =
     (let f = fold_case s
      in case filter (\<lambda>i. ends r f i \<noteq> []) [k..<Suc (length s)] of
           [] \<Rightarrow> None
         | i # _ \<Rightarrow> Some (i, hd (ends r f i)))"

definition alts :: "string list \<Rightarrow> rx" where
  "alts ws = foldr (\<lambda>w r. Alt (Lit w) r) (butlast ws) (Lit (last ws))"

definition any_char :: "char \<Rightarrow> bool" where
  "any_char c = (\<not> is_line_terminator c)"

section \<open>Cells, ranges and the worksheet\<close>

text \<open>
  A cell value of \<open>range.values\<close> is a number, a string (the empty cell is the empty
  string) or a boolean; \<open>CNull\<close> stands for \<open>null\<close> and \<open>undefined\<close>, which an
  \<open>any[][]\<close> may hold and which a read past the end of a row yields.
\<close>

datatype cell = CNum jsnum | CStr string | CBool bool | CNull

type_synonym grid = "cell list list"

definition cell_at :: "cell list \<Rightarrow> nat \<Rightarrow> cell" where
  "cell_at row i = (if i < length row then row ! i else CNull)"

text \<open>
  \<open>Number.prototype.toString\<close> prints the shortest decimal that reads back as the same
  double; it is a parameter \<open>nts\<close> of the functions that print a number.
  \<open>toString_opt\<close> is \<open>h?.toString()\<close> (\<open>None\<close> for \<open>undefined\<close>), \<open>String_of\<close> is
  \<open>String(h)\<close>.
\<close>

definition toString_opt :: "(jsnum \<Rightarrow> string) \<Rightarrow> cell \<Rightarrow> string option" where
  "toString_opt nts h =
     (case h of
        CNum n \<Rightarrow> Some (nts n)
      | CStr t \<Rightarrow> Some t
      | CBool b \<Rightarrow> Some (if b then ''true'' else ''false'')
      | CNull \<Rightarrow> None)"

definition String_of :: "(jsnum \<Rightarrow> string) \<Rightarrow> cell \<Rightarrow> string" where
  "String_of nts h = (case toString_opt nts h of Some t \<Rightarrow> t | None \<Rightarrow> ''null'')"

record xlrange =
  rowIndex :: nat
  columnIndex :: nat
  rowCount :: nat
  columnCount :: nat

text \<open>
  The workbook as the sum operations see it: the values and number formats of the active
  worksheet by zero-based (row, column), and the selected range.
\<close>

record workbook =
  cells :: "nat \<times> nat \<Rightarrow> cell"
  numberFormat :: "nat \<times> nat \<Rightarrow> string"
  selection :: xlrange

definition grid_of :: "(nat \<times> nat \<Rightarrow> cell) \<Rightarrow> xlrange \<Rightarrow> grid" where
  "grid_of f r =
     map (\<lambda>i. map (\<lambda>j. f (rowIndex r + i, columnIndex r + j)) [0..<columnCount r])
       [0..<rowCount r]"

definition range_values :: "workbook \<Rightarrow> xlrange \<Rightarrow> grid" where
  "range_values wb r = grid_of (cells wb) r"

definition write_value :: "nat \<times> nat \<Rightarrow> cell \<Rightarrow> workbook \<Rightarrow> workbook" where
  "write_value rc v wb = wb\<lparr>cells := (cells wb)(rc := v)\<rparr>"

definition write_format :: "nat \<times> nat \<Rightarrow> string \<Rightarrow> workbook \<Rightarrow> workbook" where
  "write_format rc f wb = wb\<lparr>numberFormat := (numberFormat wb)(rc := f)\<rparr>"

text \<open>
  The calls on the spreadsheet that may throw, each a point of the source where a
  \<open>context.sync()\<close> or a lookup is awaited. A port says which of them throw.
\<close>

datatype port_op =
    LoadSnapshot
  | LoadSelection
  | SyncCell nat nat
  | SyncFinal
  | LoadSheetNames
  | GetItem string
  | AddSheet string
  | AddSheetBefore string nat
  | ActivateSheet string
  | LoadRange
  | LoadPivotSheet string
  | AddPivotTable string
  | GetHierarchy nat
  | SyncPivot string
  | AddTable string

type_synonym port = "port_op \<Rightarrow> bool"

text \<open>
  An address in A1 notation names one cell: column letters (either case), then the row
  number from 1. Anything else makes \<open>getRange\<close> fail. The bounds of a worksheet on row
  and column numbers are left out.
\<close>

definition letter_number :: "char \<Rightarrow> nat" where
  "letter_number c =
     (case map_of (zip lower_letters
                    [1, 2, 3, 4, 5, 6, 7, 8, 9, 10, 11, 12, 13, 14, 15, 16, 17, 18, 19, 20,
                     21, 22, 23, 24, 25, 26]) (fold_char c) of
        Some n \<Rightarrow> n
      | None \<Rightarrow> 0)"

definition column_number :: "string \<Rightarrow> nat" where
  "column_number ls = foldl (\<lambda>a c. 26 * a + letter_number c) 0 ls"

definition parseCellAddress :: "string \<Rightarrow> (nat \<times> nat) option" where
  "parseCellAddress a =
     (let ls = takeWhile is_ascii_letter a;
          ds = dropWhile is_ascii_letter a
      in if ls \<noteq> [] \<and> ds \<noteq> [] \<and> list_all is_digit ds \<and> 1 \<le> dec_value ds
         then Some (nat (dec_value ds) - 1, column_number ls - 1)
         else None)"

section \<open>The aggregation loops\<close>

text \<open>
  The body of every summing loop of the source (\<open>calculateAndInsertSum\<close>,
  \<open>sumSpecificColumns\<close>, \<open>sumIntoNextRow\<close> and the amount-and-cost block of
  \<open>handleSend\<close>): a number is added, a string is added when \<open>parseFloat\<close> reads a
  number from it, anything else is passed over.
\<close>

definition addCell :: "jsnum \<Rightarrow> cell \<Rightarrow> jsnum" where
  "addCell s val =
     (case val of
        CNum n \<Rightarrow> js_add s n
      | CStr t \<Rightarrow> (let num = parseFloat t in if \<not> isNaN num then js_add s num else s)
      | _ \<Rightarrow> s)"

text \<open>\<open>calculateAndInsertSum\<close>: every row, every cell of the row.\<close>

definition sum_selection :: "grid \<Rightarrow> jsnum" where
  "sum_selection vs = foldl (\<lambda>s row. foldl addCell s row) (Fin 0) vs"

text \<open>\<open>sumSpecificColumns\<close> and the amount-and-cost block: rows 1 and up of one column.\<close>

definition sum_column :: "grid \<Rightarrow> nat \<Rightarrow> jsnum" where
  "sum_column vs colIndex = foldl (\<lambda>s row. addCell s (cell_at row colIndex)) (Fin 0) (tl vs)"

text \<open>
  \<open>sumIntoNextRow\<close>: one sum per column of row 0, over every row. \<open>values[0]\<close> of an
  empty grid is \<open>undefined\<close> and reading its length throws: \<open>None\<close>.
\<close>

definition columnSums :: "grid \<Rightarrow> jsnum list option" where
  "columnSums vs =
     (case vs of
        [] \<Rightarrow> None
      | row0 # _ \<Rightarrow>
          Some (map (\<lambda>col. foldl (\<lambda>s row. addCell s (cell_at row col)) (Fin 0) vs)
                  [0..<length row0]))"

text \<open>
  The aggregation of the specification, in its words: a numeric cell counts as itself, a
  string as the number a locale-naive decimal parse reads from it, every other cell and
  every string that does not parse as 0.
\<close>

definition coerce :: "cell \<Rightarrow> jsnum" where
  "coerce c =
     (case c of
        CNum n \<Rightarrow> n
      | CStr t \<Rightarrow> (if parseFloat t = NaN then Fin 0 else parseFloat t)
      | CBool b \<Rightarrow> Fin 0
      | CNull \<Rightarrow> Fin 0)"

definition sumCells_spec :: "cell list \<Rightarrow> jsnum" where
  "sumCells_spec cs = foldl (\<lambda>s c. js_add s (coerce c)) (Fin 0) cs"

section \<open>Column resolution\<close>

text \<open>\<open>xs.findIndex(p)\<close>, with \<open>None\<close> for -1.\<close>

fun findIndex :: "('a \<Rightarrow> bool) \<Rightarrow> 'a list \<Rightarrow> nat option" where
  "findIndex p [] = None"
| "findIndex p (x # xs) = (if p x then Some 0 else map_option Suc (findIndex p xs))"

text \<open>
  The two lookups of \<open>sumSpecificColumns\<close> for one requested name: equality of the
  lower-cased header text first, containment second. A \<open>null\<close> header ends the optional
  chain with \<open>undefined\<close>, which matches nothing.
\<close>

definition header_equals :: "(jsnum \<Rightarrow> string) \<Rightarrow> string \<Rightarrow> cell \<Rightarrow> bool" where
  "header_equals nts colName h =
     (case toString_opt nts h of
        None \<Rightarrow> False
      | Some t \<Rightarrow> toLowerCase t = toLowerCase colName)"

definition header_contains :: "(jsnum \<Rightarrow> string) \<Rightarrow> string \<Rightarrow> cell \<Rightarrow> bool" where
  "header_contains nts colName h =
     (case toString_opt nts h of
        None \<Rightarrow> False
      | Some t \<Rightarrow> str_includes (toLowerCase t) (toLowerCase colName))"

definition colIndex_of :: "(jsnum \<Rightarrow> string) \<Rightarrow> cell list \<Rightarrow> string \<Rightarrow> nat option" where
  "colIndex_of nts headers colName =
     (case findIndex (header_equals nts colName) headers of
        Some i \<Rightarrow> Some i
      | None \<Rightarrow> findIndex (header_contains nts colName) headers)"

section \<open>The sum operations of the spreadsheet service\<close>

text \<open>
  Each operation is one \<open>Excel.run\<close> batch inside \<open>try\<close>/\<open>catch\<close>: it returns
  \<open>false\<close> when anything throws, and the writes a failed \<open>sync\<close> had queued do not
  reach the worksheet. The result is the boolean and the workbook afterwards.
\<close>

definition below_selection :: "xlrange \<Rightarrow> nat \<times> nat" where
  "below_selection r = (rowIndex r + rowCount r, columnIndex r)"

definition calculateAndInsertSum :: "port \<Rightarrow> string option \<Rightarrow> workbook \<Rightarrow> bool \<times> workbook" where
  "calculateAndInsertSum p targetCell wb =
     (if p LoadSelection then (False, wb)
      else
        (let selectedRange = selection wb;
             sum = sum_selection (range_values wb selectedRange);
             target = (case targetCell of
                         None \<Rightarrow> Some (below_selection selectedRange)
                       | Some a \<Rightarrow> if a = [] then Some (below_selection selectedRange)
                                  else parseCellAddress a)
         in case target of
              None \<Rightarrow> (False, wb)
            | Some (r, c) \<Rightarrow>
                if p (SyncCell r c) then (False, wb)
                else (True, write_format (r, c) ''0.00'' (write_value (r, c) (CNum sum) wb))))"

text \<open>
  The loop of \<open>sumSpecificColumns\<close> over the requested names. The names are typed
  \<open>string[]\<close>, but \<open>handleSend\<close> also passes raw header cells: on a name that is no
  string \<open>colName.toLowerCase()\<close> throws as soon as a header is compared. \<open>found\<close>
  says whether \<open>results\<close> has a key. Each resolved column is written and flushed before
  the next name is looked at.
\<close>

fun sumColumns_loop ::
  "(jsnum \<Rightarrow> string) \<Rightarrow> port \<Rightarrow> xlrange \<Rightarrow> grid \<Rightarrow> cell list \<Rightarrow> bool \<Rightarrow> workbook
     \<Rightarrow> bool \<times> workbook" where
  "sumColumns_loop nts p sel vs [] found wb = (if p SyncFinal then (False, wb) else (found, wb))"
| "sumColumns_loop nts p sel vs (colName # rest) found wb =
     (case colName of
        CStr name \<Rightarrow>
          (case colIndex_of nts (hd vs) name of
             None \<Rightarrow> sumColumns_loop nts p sel vs rest found wb
           | Some colIndex \<Rightarrow>
               (let sum = sum_column vs colIndex;
                    targetRowIndex = rowIndex sel + length vs;
                    targetColIndex = columnIndex sel + colIndex
                in if p (SyncCell targetRowIndex targetColIndex) then (False, wb)
                   else sumColumns_loop nts p sel vs rest True
                          (write_format (targetRowIndex, targetColIndex) ''0.00''
                             (write_value (targetRowIndex, targetColIndex) (CNum sum) wb))))
      | _ \<Rightarrow> if hd vs = [] then sumColumns_loop nts p sel vs rest found wb else (False, wb))"

definition sumSpecificColumns ::
  "(jsnum \<Rightarrow> string) \<Rightarrow> port \<Rightarrow> cell list \<Rightarrow> workbook \<Rightarrow> bool \<times> workbook" where
  "sumSpecificColumns nts p columnNames wb =
     (if p LoadSelection then (False, wb)
      else
        (let selectedRange = selection wb;
             vs = range_values wb selectedRange
         in if length vs \<le> 1 then (False, wb)
            else sumColumns_loop nts p selectedRange vs columnNames False wb))"

text \<open>
  \<open>writeValueToCell\<close>: the number format is set when the value is a number or a string
  that \<open>parseFloat\<close> reads.
\<close>

definition is_numeric_value :: "cell \<Rightarrow> bool" where
  "is_numeric_value v =
     (case v of CNum n \<Rightarrow> True | CStr t \<Rightarrow> \<not> isNaN (parseFloat t) | _ \<Rightarrow> False)"

definition writeValueToCell :: "port \<Rightarrow> cell \<Rightarrow> string \<Rightarrow> workbook \<Rightarrow> bool \<times> workbook" where
  "writeValueToCell p v targetCell wb =
     (case parseCellAddress targetCell of
        None \<Rightarrow> (False, wb)
      | Some (r, c) \<Rightarrow>
          if p (SyncCell r c) then (False, wb)
          else (True, (if is_numeric_value v then write_format (r, c) ''0.00'' else id)
                        (write_value (r, c) v wb)))"

text \<open>\<open>sumIntoNextRow\<close>: the writes of all columns are queued, then flushed once.\<close>

definition write_sums :: "nat \<Rightarrow> nat \<Rightarrow> jsnum list \<Rightarrow> workbook \<Rightarrow> workbook" where
  "write_sums targetRow col0 csums wb =
     foldl (\<lambda>w col.
              if csums ! col \<noteq> Fin 0
              then write_format (targetRow, col0 + col) ''0.00''
                     (write_value (targetRow, col0 + col) (CNum (csums ! col)) w)
              else w)
       wb [0..<length csums]"

definition sumIntoNextRow :: "port \<Rightarrow> workbook \<Rightarrow> bool \<times> workbook" where
  "sumIntoNextRow p wb =
     (if p LoadSelection then (False, wb)
      else
        (let selectedRange = selection wb
         in case columnSums (range_values wb selectedRange) of
              None \<Rightarrow> (False, wb)
            | Some csums \<Rightarrow>
                (let targetRow = rowIndex selectedRange + rowCount selectedRange
                 in if p SyncFinal then (False, wb)
                    else (True, write_sums targetRow (columnIndex selectedRange) csums wb))))"

section \<open>The selection snapshot\<close>

text \<open>
  \<open>ExcelData\<close>. The address string of the range is represented by the range it names;
  its \<open>rowCount\<close> and \<open>columnCount\<close> are those of that range.
\<close>

record ExcelData =
  data_range :: xlrange
  data_values :: grid
  hasHeaders :: bool

definition is_string :: "cell \<Rightarrow> bool" where
  "is_string c = (case c of CStr t \<Rightarrow> True | _ \<Rightarrow> False)"

definition is_number :: "cell \<Rightarrow> bool" where
  "is_number c = (case c of CNum n \<Rightarrow> True | _ \<Rightarrow> False)"

definition determineIfHasHeaders :: "grid \<Rightarrow> bool" where
  "determineIfHasHeaders vs =
     (if length vs \<le> 1 then False
      else
        (let firstRow = vs ! 0; secondRow = vs ! 1;
             firstRowStringCount = length (filter (\<lambda>i. is_string (firstRow ! i)) [0..<length firstRow]);
             secondRowNumberCount =
               length (filter (\<lambda>i. is_number (cell_at secondRow i)) [0..<length firstRow])
         in firstRowStringCount > secondRowNumberCount))"

definition extractDataFromSelection :: "port \<Rightarrow> workbook \<Rightarrow> ExcelData option" where
  "extractDataFromSelection p wb =
     (if p LoadSnapshot then None
      else
        (let vs = range_values wb (selection wb)
         in Some \<lparr>data_range = selection wb, data_values = vs,
                   hasHeaders = determineIfHasHeaders vs\<rparr>))"

section \<open>The completion service\<close>

datatype role = User | Assistant

record message =
  role :: role
  content :: string

text \<open>
  The request posted to the completion endpoint, by the values its strings are built
  from: whether the system prompt says that data is selected, the history kept, the query,
  the data appended to it and the bearer credential.
\<close>

record request =
  req_hasData :: bool
  req_history :: "message list"
  req_query :: string
  req_data :: "ExcelData option"
  req_bearer :: string

text \<open>
  What the call may throw: an error object, with the message of the response body
  (\<open>error.response?.data?.error?.message\<close>) and its own \<open>message\<close>, either of which may
  be absent. A reply carries the contents of its choices.
\<close>

record thrown =
  response_message :: "string option"
  error_message :: "string option"

datatype response = Choices "string list"

definition getApiKey :: "string option \<Rightarrow> string option \<Rightarrow> string" where
  "getApiKey env_key config_key =
     (case env_key of
        Some k \<Rightarrow> if k \<noteq> [] then k
                  else (case config_key of Some c \<Rightarrow> if c \<noteq> [] then c else [] | None \<Rightarrow> [])
      | None \<Rightarrow> (case config_key of Some c \<Rightarrow> if c \<noteq> [] then c else [] | None \<Rightarrow> []))"

definition truthy :: "string option \<Rightarrow> bool" where
  "truthy x = (case x of Some t \<Rightarrow> t \<noteq> [] | None \<Rightarrow> False)"

definition error_text :: "thrown \<Rightarrow> string" where
  "error_text e =
     ''Error: '' @
       (if truthy (response_message e) then the (response_message e)
        else if truthy (error_message e) then the (error_message e)
        else ''Failed to get AI response'')"

definition missing_choice :: thrown where
  "missing_choice =
     \<lparr>response_message = None,
      error_message = Some ''Cannot read properties of undefined (reading 'message')''\<rparr>"

text \<open>The request: the system message, the last ten messages of the history, the query.\<close>

definition build_request :: "string \<Rightarrow> message list \<Rightarrow> string \<Rightarrow> ExcelData option \<Rightarrow> request" where
  "build_request key messageHistory currentQuery selectedData =
     \<lparr>req_hasData = (selectedData \<noteq> None),
      req_history = drop (length messageHistory - 10) messageHistory,
      req_query = currentQuery,
      req_data = selectedData,
      req_bearer = key\<rparr>"

text \<open>
  The body of the \<open>try\<close>: its result is the string returned or the value thrown, together
  with the requests posted.
\<close>

definition completion_body ::
  "string \<Rightarrow> (request \<Rightarrow> thrown + response) \<Rightarrow> message list \<Rightarrow> string \<Rightarrow> ExcelData option
     \<Rightarrow> (thrown + string) \<times> request list" where
  "completion_body key post messageHistory currentQuery selectedData =
     (if key = [] then
        (Inr ''Error: API key configuration is missing. Please check the setup.'', [])
      else
        (let req = build_request key messageHistory currentQuery selectedData
         in case post req of
              Inl e \<Rightarrow> (Inl e, [req])
            | Inr (Choices cs) \<Rightarrow>
                (case cs of
                   [] \<Rightarrow> (Inl missing_choice, [req])
                 | c # _ \<Rightarrow> (Inr c, [req]))))"

text \<open>
  \<open>getOpenAIResponse\<close>: the \<open>catch\<close> turns whatever the body threw into a string. The
  result is \<open>Inl\<close> for an exception that leaves the function.
\<close>

definition getOpenAIResponse ::
  "string \<Rightarrow> (request \<Rightarrow> thrown + response) \<Rightarrow> message list \<Rightarrow> string \<Rightarrow> ExcelData option
     \<Rightarrow> (thrown + string) \<times> request list" where
  "getOpenAIResponse key post messageHistory currentQuery selectedData =
     (case completion_body key post messageHistory currentQuery selectedData of
        (Inl e, reqs) \<Rightarrow> (Inr (error_text e), reqs)
      | (Inr reply, reqs) \<Rightarrow> (Inr reply, reqs))"

section \<open>The patterns of the intent rules\<close>

definition seqs :: "rx list \<Rightarrow> rx" where
  "seqs rs = foldr Seq rs Eps"

definition word_of :: "string list \<Rightarrow> rx" where
  "word_of ws = seqs [WordB, alts ws, WordB]"

text \<open>\<open>/\b(sum|add|total|calculate)\b.*?\b(column|row|cell|range|value|amount|cost|price|number|data)\b/i\<close>\<close>

definition sum_pattern :: rx where
  "sum_pattern =
     seqs [word_of [''sum'', ''add'', ''total'', ''calculate''], Rep any_char False 0,
           word_of [''column'', ''row'', ''cell'', ''range'', ''value'', ''amount'', ''cost'',
                    ''price'', ''number'', ''data'']]"

text \<open>\<open>/\b(sum|add|total)\b.*?\b(column|columns)\b/i\<close> and
  \<open>/\b(sum|add|total)\b.*?\b(amount|cost|price|value|total)\b/i\<close>\<close>

definition column_pattern :: rx where
  "column_pattern =
     seqs [word_of [''sum'', ''add'', ''total''], Rep any_char False 0,
           word_of [''column'', ''columns'']]"

definition field_pattern :: rx where
  "field_pattern =
     seqs [word_of [''sum'', ''add'', ''total''], Rep any_char False 0,
           word_of [''amount'', ''cost'', ''price'', ''value'', ''total'']]"

text \<open>\<open>/\b(create|make|build|generate)\b.*\b(pivot|pivot\s*table)\b/i\<close>\<close>

definition pivot_pattern :: rx where
  "pivot_pattern =
     seqs [word_of [''create'', ''make'', ''build'', ''generate''], Rep any_char True 0,
           WordB,
           Alt (Lit ''pivot'') (seqs [Lit ''pivot'', Rep is_space True 0, Lit ''table'']),
           WordB]"

text \<open>\<open>/\b(create|make|build|generate|plot)\b.*\b(chart|graph|plot)\b/i\<close>\<close>

definition chart_pattern :: rx where
  "chart_pattern =
     seqs [word_of [''create'', ''make'', ''build'', ''generate'', ''plot''], Rep any_char True 0,
           word_of [''chart'', ''graph'', ''plot'']]"

text \<open>\<open>/\b(apply|use|add|create)\b.*\b(formula|function)\b/i\<close>\<close>

definition formula_pattern :: rx where
  "formula_pattern =
     seqs [word_of [''apply'', ''use'', ''add'', ''create''], Rep any_char True 0,
           word_of [''formula'', ''function'']]"

text \<open>\<open>/\b(next|below|following)\b.*?\b(row|line)\b/i\<close>\<close>

definition next_row_pattern :: rx where
  "next_row_pattern =
     seqs [word_of [''next'', ''below'', ''following''], Rep any_char False 0,
           word_of [''row'', ''line'']]"

text \<open>
  \<open>/\b(sum|add|total)\b.*?\b(column|columns)?\s+([\w\s,]+)/i\<close>: the part before the
  third group, and the class of the third group. \<open>columnText\<close> is \<open>columnMatches[3]\<close>,
  or the empty string without a match: at the leftmost start that matches, the first end of
  the first part after which the group matches, and from there the longest run of the class.
\<close>

definition column_text_prefix :: rx where
  "column_text_prefix =
     seqs [word_of [''sum'', ''add'', ''total''], Rep any_char False 0, WordB,
           Alt (alts [''column'', ''columns'']) Eps, Rep is_space True 1]"

definition name_char :: "char \<Rightarrow> bool" where
  "name_char c = (is_word_char c \<or> is_space c \<or> c = CHR '','')"

definition columnText :: "string \<Rightarrow> string" where
  "columnText input =
     (let f = fold_case input
      in case filter (\<lambda>i. ends (Seq column_text_prefix (Rep name_char True 1)) f i \<noteq> [])
                [0..<Suc (length input)] of
           [] \<Rightarrow> []
         | i # _ \<Rightarrow>
             (case filter (\<lambda>k. ends (Rep name_char True 1) f k \<noteq> [])
                     (ends column_text_prefix f i) of
                [] \<Rightarrow> []
              | k # _ \<Rightarrow> takeWhile name_char (drop k input)))"

text \<open>
  \<open>/\b(amount|cost|price|value|total|sales|revenue|profit|quantity)\b/gi\<close> and the
  \<open>exec\<close> loop over it: every match from left to right, each starting where the one
  before ended. A match of this pattern is never empty; the guard of the recursion says so.
\<close>

definition specificColumnPattern :: rx where
  "specificColumnPattern =
     word_of [''amount'', ''cost'', ''price'', ''value'', ''total'', ''sales'', ''revenue'',
              ''profit'', ''quantity'']"

function matchAll :: "rx \<Rightarrow> string \<Rightarrow> nat \<Rightarrow> string list" where
  "matchAll r s k =
     (case rx_match_from r s k of
        None \<Rightarrow> []
      | Some (i, e) \<Rightarrow>
          if k < e \<and> k \<le> length s
          then take (e - i) (drop i s) # matchAll r s e
          else [take (e - i) (drop i s)])"
  by pat_completeness auto
termination
  by (relation "measure (\<lambda>(r, s, k). Suc (length s) - k)") auto

text \<open>\<open>columnText.split(/,|and/)\<close>: the pieces between commas and the word \<open>and\<close>.\<close>

fun split_names :: "string \<Rightarrow> string \<Rightarrow> string list" where
  "split_names cur [] = [cur]"
| "split_names cur (c # cs) =
     (if c = CHR '','' then cur # split_names [] cs
      else if startsWith (c # cs) ''and'' then cur # split_names [] (drop 2 cs)
      else split_names (cur @ [c]) cs)"

text \<open>
  The formula of a request: \<open>/=([A-Z]+\([^)]+\))/i\<close>, else
  \<open>/=([A-Z0-9+\-*/^()&<>=" ]+)/i\<close>; the formula is the whole match.
\<close>

definition call_formula :: rx where
  "call_formula =
     seqs [Lit ''='', Rep is_ascii_letter True 1, Lit ''('', Rep (\<lambda>c. c \<noteq> CHR '')'') True 1,
           Lit '')'']"

definition operator_char :: "char \<Rightarrow> bool" where
  "operator_char c =
     (is_ascii_letter c \<or> is_digit c \<or> c \<in> set ''+-*/^()&<>= '' \<or> c = CHR 0x22)"

definition operator_formula :: rx where
  "operator_formula = seqs [Lit ''='', Rep operator_char True 1]"

definition formulaMatch :: "string \<Rightarrow> string option" where
  "formulaMatch input =
     (case rx_match_from call_formula input 0 of
        Some (i, e) \<Rightarrow> Some (take (e - i) (drop i input))
      | None \<Rightarrow>
          (case rx_match_from operator_formula input 0 of
             Some (i, e) \<Rightarrow> Some (take (e - i) (drop i input))
           | None \<Rightarrow> None))"

datatype chartType = BarClustered | Line | Pie | XYScatter | ColumnClustered

definition getChartTypeFromInput :: "string \<Rightarrow> chartType" where
  "getChartTypeFromInput input =
     (let input_lower = toLowerCase input
      in if str_includes input_lower ''bar chart'' \<or> str_includes input_lower ''bar graph''
         then BarClustered
         else if str_includes input_lower ''line chart'' \<or> str_includes input_lower ''line graph''
         then Line
         else if str_includes input_lower ''pie chart'' then Pie
         else if str_includes input_lower ''scatter'' \<or> str_includes input_lower ''scatter plot''
         then XYScatter
         else ColumnClustered)"

definition getChartTypeName :: "chartType \<Rightarrow> string" where
  "getChartTypeName t =
     (case t of
        BarClustered \<Rightarrow> ''bar''
      | Line \<Rightarrow> ''line''
      | Pie \<Rightarrow> ''pie''
      | XYScatter \<Rightarrow> ''scatter''
      | ColumnClustered \<Rightarrow> ''column'')"

section \<open>The conversation turn\<close>

text \<open>
  \<open>handleSend\<close> runs one user turn. The model threads a record through it: the workbook,
  the messages appended by \<open>setMessages\<close>, the flag \<open>actionPerformed\<close>, the calls made on
  the spreadsheet and completion services in their order, the requests posted and the error
  shown, if any.
\<close>

datatype call =
    Call_calculateAndInsertSum
  | Call_sumSpecificColumns "cell list"
  | Call_createSamplePivotTable xlrange
  | Call_createChart chartType xlrange string
  | Call_applyFormulaToSelection string
  | Call_writeValueToCell cell string
  | Call_sumIntoNextRow
  | Call_getOpenAIResponse

record turn =
  book :: workbook
  appended :: "message list"
  actionPerformed :: bool
  calls :: "call list"
  posted :: "request list"
  turn_error :: "string option"

text \<open>
  What the turn depends on besides the workbook: how numbers print, which spreadsheet calls
  throw, the credential and the endpoint. The pivot, chart and formula operations act on
  worksheets, chart objects and formulas that the record \<^typ>\<open>workbook\<close> does not hold;
  a turn takes their effect on the workbook and their result as given.
\<close>

record env =
  nts :: "jsnum \<Rightarrow> string"
  excel :: port
  run_createSamplePivotTable :: "xlrange \<Rightarrow> workbook \<Rightarrow> bool \<times> workbook"
  run_createChart :: "chartType \<Rightarrow> xlrange \<Rightarrow> string \<Rightarrow> workbook \<Rightarrow> bool \<times> workbook"
  run_applyFormulaToSelection :: "string \<Rightarrow> workbook \<Rightarrow> bool \<times> workbook"
  apiKey :: string
  post :: "request \<Rightarrow> thrown + response"

definition perform :: "call \<Rightarrow> (workbook \<Rightarrow> bool \<times> workbook) \<Rightarrow> turn \<Rightarrow> bool \<times> turn" where
  "perform c f t = (let (ok, wb) = f (book t) in (ok, t\<lparr>book := wb, calls := calls t @ [c]\<rparr>))"

definition say :: "string \<Rightarrow> turn \<Rightarrow> turn" where
  "say text t = t\<lparr>appended := appended t @ [\<lparr>role = Assistant, content = text\<rparr>]\<rparr>"

definition performed :: "turn \<Rightarrow> turn" where
  "performed t = t\<lparr>actionPerformed := True\<rparr>"

text \<open>Rule 1, the sum request.\<close>

definition sum_request :: "env \<Rightarrow> turn \<Rightarrow> turn" where
  "sum_request e t =
     (let (success, t1) = perform Call_calculateAndInsertSum (calculateAndInsertSum (excel e) None) t
      in if success
         then say ''I've calculated the sum of the selected cells and placed it in the cell below the selection.''
                (performed t1)
         else t1)"

text \<open>
  Rule 2, the column sum request. \<open>columnsToSum\<close>: the keywords found in the input;
  without any, the names written after the trigger; without any, the headers of the
  selection (all of them up to three columns, else those of the columns with a number in
  the body).
\<close>

definition header_columns :: "grid \<Rightarrow> cell list" where
  "header_columns vs =
     (let headers = hd vs
      in if length headers \<le> 3 then headers
         else map (\<lambda>colIndex. headers ! colIndex)
                (filter (\<lambda>colIndex. list_ex (\<lambda>row. is_numeric_value (cell_at row colIndex)) (tl vs))
                   [0..<length headers]))"

definition columnsToSum :: "string \<Rightarrow> ExcelData \<Rightarrow> cell list" where
  "columnsToSum input selectedData =
     (let specific = map CStr (matchAll specificColumnPattern input 0);
          named = (if specific = [] \<and> columnText input \<noteq> []
                   then map CStr (filter (\<lambda>col. col \<noteq> [])
                                    (map trim (split_names [] (columnText input))))
                   else specific)
      in if named = [] \<and> data_values selectedData \<noteq> []
         then header_columns (data_values selectedData)
         else named)"

definition join_item :: "(jsnum \<Rightarrow> string) \<Rightarrow> cell \<Rightarrow> string" where
  "join_item f c = (case toString_opt f c of Some t \<Rightarrow> t | None \<Rightarrow> [])"

definition column_sum_request :: "env \<Rightarrow> string \<Rightarrow> ExcelData \<Rightarrow> turn \<Rightarrow> turn" where
  "column_sum_request e input selectedData t =
     (let cols = columnsToSum input selectedData
      in if cols \<noteq> [] then
           (let (success, t1) = perform (Call_sumSpecificColumns cols)
                                  (sumSpecificColumns (nts e) (excel e) cols) t
            in if success
               then say (''I've calculated the sum for the following columns: ''
                         @ join '', '' (map (join_item (nts e)) cols)
                         @ ''. The results have been placed in the cells below each column.'')
                      (performed t1)
               else
                 (let (success2, t2) = perform Call_calculateAndInsertSum
                                         (calculateAndInsertSum (excel e) None) t1
                  in if success2
                     then say ''I've calculated the sum of all selected cells and placed it in the cell below the selection.''
                            (performed t2)
                     else t2))
         else t)"

text \<open>Rules 3, 4 and 5: pivot table, chart and formula.\<close>

definition pivot_request :: "env \<Rightarrow> ExcelData \<Rightarrow> turn \<Rightarrow> turn" where
  "pivot_request e selectedData t =
     (let (success, t1) = perform (Call_createSamplePivotTable (data_range selectedData))
                            (run_createSamplePivotTable e (data_range selectedData)) t
      in if success
         then say ''I've created a pivot table based on your selected data in a new worksheet named 'PivotTable'.''
                (performed t1)
         else t1)"

definition chart_request :: "env \<Rightarrow> string \<Rightarrow> ExcelData \<Rightarrow> turn \<Rightarrow> turn" where
  "chart_request e input selectedData t =
     (let chartType = getChartTypeFromInput input;
          (success, t1) = perform (Call_createChart chartType (data_range selectedData)
                                     ''Chart from selected data'')
                            (run_createChart e chartType (data_range selectedData)
                               ''Chart from selected data'') t
      in if success
         then say (''I've created a '' @ getChartTypeName chartType
                   @ '' chart using your selected data.'') (performed t1)
         else t1)"

definition formula_request :: "env \<Rightarrow> string \<Rightarrow> turn \<Rightarrow> turn" where
  "formula_request e input t =
     (case formulaMatch input of
        None \<Rightarrow> t
      | Some formula \<Rightarrow>
          (let (success, t1) = perform (Call_applyFormulaToSelection formula)
                                 (run_applyFormulaToSelection e formula) t
           in if success
              then say (''I've applied the formula '' @ formula @ '' to your selected cells.'')
                     (performed t1)
              else t1))"

text \<open>
  The special case for amount and cost. The loop over the headers keeps the last header
  that contains the word. The two cells are addressed in A1 notation: the letter with code
  65 plus the column index within the selection, and the row number \<open>rowCount + 1\<close>.
  Code units above 255 are no \<^typ>\<open>char\<close>; they are taken as 255, no column letter either.
\<close>

definition last_header_with :: "(jsnum \<Rightarrow> string) \<Rightarrow> string \<Rightarrow> cell list \<Rightarrow> nat option" where
  "last_header_with f w headers =
     foldl (\<lambda>col i. if str_includes (toLowerCase (String_of f (headers ! i))) w then Some i else col)
       None [0..<length headers]"

definition fromCharCode :: "nat \<Rightarrow> string" where
  "fromCharCode n = [char_of (if n < 256 then n else 255)]"

definition sum_or_zero :: "grid \<Rightarrow> nat option \<Rightarrow> jsnum" where
  "sum_or_zero vs col = (case col of Some c \<Rightarrow> sum_column vs c | None \<Rightarrow> Fin 0)"

definition write_below :: "env \<Rightarrow> nat option \<Rightarrow> jsnum \<Rightarrow> nat \<Rightarrow> turn \<Rightarrow> bool \<times> turn" where
  "write_below e col v targetRow t =
     (case col of
        None \<Rightarrow> (False, t)
      | Some c \<Rightarrow>
          (let cellAddress = fromCharCode (65 + c) @ digits_of targetRow
           in perform (Call_writeValueToCell (CNum v) cellAddress)
                (writeValueToCell (excel e) (CNum v) cellAddress) t))"

definition amount_cost_request :: "env \<Rightarrow> ExcelData \<Rightarrow> turn \<Rightarrow> turn" where
  "amount_cost_request e selectedData t =
     (case data_values selectedData of
        [] \<Rightarrow> t
      | headers # _ \<Rightarrow>
          (let amountCol = last_header_with (nts e) ''amount'' headers;
               costCol = last_header_with (nts e) ''cost'' headers;
               amountSum = sum_or_zero (data_values selectedData) amountCol;
               costSum = sum_or_zero (data_values selectedData) costCol;
               targetRow = rowCount (data_range selectedData) + 1;
               (success1, t1) = write_below e amountCol amountSum targetRow t;
               (success2, t2) = write_below e costCol costSum targetRow t1
           in if success1 \<or> success2
              then say (''I've calculated the sums: Amount = '' @ nts e amountSum
                        @ '', Cost = '' @ nts e costSum
                        @ ''. The results are now in row '' @ digits_of targetRow @ ''.'')
                     (performed t2)
              else t2))"

text \<open>The next-row request (its two closing messages begin with a pictograph, left out here).\<close>

definition next_row_request :: "env \<Rightarrow> turn \<Rightarrow> turn" where
  "next_row_request e t =
     (let t0 = say ''I'll calculate the sums and put them in the next row...'' t;
          (success, t1) = perform Call_sumIntoNextRow (sumIntoNextRow (excel e)) t0
      in if success
         then say ''I've calculated the sums for each column and placed them in the row below your selection.''
                (performed t1)
         else say ''Sorry, I couldn't calculate the sums. Please make sure you've selected a range with numeric data.''
                t1)"

text \<open>The first chain of \<open>if\<close> / \<open>else if\<close>: rules 1 to 5.\<close>

definition first_chain :: "env \<Rightarrow> string \<Rightarrow> ExcelData option \<Rightarrow> turn \<Rightarrow> turn" where
  "first_chain e input selectedData t =
     (if rx_test sum_pattern input \<and> selectedData \<noteq> None then sum_request e t
      else if (rx_test column_pattern input \<or> rx_test field_pattern input) \<and> selectedData \<noteq> None
      then column_sum_request e input (the selectedData) t
      else if rx_test pivot_pattern input \<and> selectedData \<noteq> None
      then pivot_request e (the selectedData) t
      else if rx_test chart_pattern input \<and> selectedData \<noteq> None
      then chart_request e input (the selectedData) t
      else if rx_test formula_pattern input \<and> selectedData \<noteq> None
      then formula_request e input t
      else t)"

text \<open>The second chain: the amount-and-cost case, else the next-row request.\<close>

definition second_chain :: "env \<Rightarrow> string \<Rightarrow> ExcelData option \<Rightarrow> turn \<Rightarrow> turn" where
  "second_chain e input selectedData t =
     (if str_includes (toLowerCase input) ''amount'' \<and> str_includes (toLowerCase input) ''cost''
         \<and> selectedData \<noteq> None
      then amount_cost_request e (the selectedData) t
      else if rx_test next_row_pattern input
              \<or> str_includes (toLowerCase input) ''next row''
              \<or> str_includes (toLowerCase input) ''row below''
      then next_row_request e t
      else t)"

text \<open>The completion service is asked only when no action was performed.\<close>

definition ask_completion :: "env \<Rightarrow> message list \<Rightarrow> string \<Rightarrow> ExcelData option \<Rightarrow> turn \<Rightarrow> turn" where
  "ask_completion e messages input selectedData t =
     (if \<not> actionPerformed t then
        (case getOpenAIResponse (apiKey e) (post e) messages input selectedData of
           (Inr response, reqs) \<Rightarrow>
             say response (t\<lparr>calls := calls t @ [Call_getOpenAIResponse], posted := posted t @ reqs\<rparr>)
         | (Inl ex, reqs) \<Rightarrow>
             t\<lparr>calls := calls t @ [Call_getOpenAIResponse], posted := posted t @ reqs,
               turn_error := Some (''Error: '' @ (if truthy (error_message ex)
                                                  then the (error_message ex)
                                                  else ''Something went wrong''))\<rparr>)
      else t)"

text \<open>The turn before anything has happened in it.\<close>

definition idle_turn :: "workbook \<Rightarrow> turn" where
  "idle_turn wb =
     \<lparr>book = wb, appended = [], actionPerformed = False, calls = [], posted = [],
      turn_error = None\<rparr>"

definition handleSend :: "env \<Rightarrow> message list \<Rightarrow> string \<Rightarrow> workbook \<Rightarrow> turn" where
  "handleSend e messages input wb =
     (if trim input = [] then idle_turn wb
      else
        (let t0 = (idle_turn wb)\<lparr>appended := [\<lparr>role = User, content = input\<rparr>]\<rparr>;
             selectedData = extractDataFromSelection (excel e) wb
         in ask_completion e messages input selectedData
              (second_chain e input selectedData
                 (first_chain e input selectedData t0))))"

section \<open>Worksheet and pivot table creation\<close>

text \<open>
  These operations act on the worksheets of the workbook: their names in order, the active
  one, the values of each, the grids assigned to ranges, the tables and the pivot tables.
  The journal keeps every call made on the spreadsheet, in order, with whether it went
  through.
\<close>

record table =
  table_sheet :: string
  table_anchor :: "nat \<times> nat"
  table_deltaRows :: int
  table_deltaColumns :: int
  table_hasHeaders :: bool
  table_name :: string

datatype axis = RowAxis | ColumnAxis | DataAxis

record pivotTable =
  pivot_sheet :: string
  pivot_name :: string
  pivot_source :: xlrange
  pivot_destination :: "nat \<times> nat"
  pivot_hierarchies :: "(axis \<times> nat) list"

record sheets =
  sheetNames :: "string list"
  activeSheet :: string
  sheetValues :: "string \<Rightarrow> nat \<times> nat \<Rightarrow> cell"
  assigned :: "(string \<times> xlrange \<times> grid) list"
  tables :: "table list"
  pivotTables :: "pivotTable list"
  journal :: "(port_op \<times> bool) list"

definition attempt :: "port \<Rightarrow> port_op \<Rightarrow> sheets \<Rightarrow> bool \<times> sheets" where
  "attempt p opn st = (\<not> p opn, st\<lparr>journal := journal st @ [(opn, \<not> p opn)]\<rparr>)"

definition add_sheet :: "port \<Rightarrow> string \<Rightarrow> sheets \<Rightarrow> string option \<times> sheets" where
  "add_sheet p n st =
     (let (ok, st1) = attempt p (AddSheet n) st
      in if ok then (Some n, st1\<lparr>sheetNames := sheetNames st1 @ [n]\<rparr>) else (None, st1))"

definition add_sheet_before :: "port \<Rightarrow> string \<Rightarrow> nat \<Rightarrow> sheets \<Rightarrow> string option \<times> sheets" where
  "add_sheet_before p n pos st =
     (let (ok, st1) = attempt p (AddSheetBefore n pos) st
      in if ok
         then (Some n, st1\<lparr>sheetNames := take pos (sheetNames st1) @ [n] @ drop pos (sheetNames st1)\<rparr>)
         else (None, st1))"

definition get_item :: "port \<Rightarrow> string \<Rightarrow> sheets \<Rightarrow> string option \<times> sheets" where
  "get_item p n st =
     (let (ok, st1) = attempt p (GetItem n) st in if ok then (Some n, st1) else (None, st1))"

text \<open>The end of \<open>createWorksheet\<close>: activate, load, sync, return the sheet.\<close>

definition activate :: "port \<Rightarrow> string \<Rightarrow> sheets \<Rightarrow> string option \<times> sheets" where
  "activate p newSheet st =
     (let (ok, st1) = attempt p (ActivateSheet newSheet) st
      in if ok then (Some newSheet, st1\<lparr>activeSheet := newSheet\<rparr>) else (None, st1))"

text \<open>
  \<open>createWorksheet\<close>, with \<open>now\<close> for \<open>Date.now()\<close>. The nested \<open>try\<close> blocks: the
  first attempt, in its \<open>catch\<close> the unique name, in the \<open>catch\<close> of that the position 0,
  and \<open>null\<close> from the innermost \<open>catch\<close>. A throw outside them reaches the outer \<open>catch\<close>.
\<close>

definition createWorksheet :: "port \<Rightarrow> nat \<Rightarrow> string \<Rightarrow> sheets \<Rightarrow> string option \<times> sheets" where
  "createWorksheet p now name st =
     (let (loaded, st0) = attempt p LoadSheetNames st
      in if \<not> loaded then (None, st0)
         else
           (let existingNames = sheetNames st0
            in case (if name \<in> set existingNames then get_item p name st0
                     else add_sheet p name st0) of
                 (Some newSheet, st1) \<Rightarrow> activate p newSheet st1
               | (None, st1) \<Rightarrow>
                   (let uniqueName = name @ ''_'' @ digits_of now
                    in case add_sheet p uniqueName st1 of
                         (Some newSheet, st2) \<Rightarrow> activate p newSheet st2
                       | (None, st2) \<Rightarrow>
                           (case add_sheet_before p name 0 st2 of
                              (Some newSheet, st3) \<Rightarrow> activate p newSheet st3
                            | (None, st3) \<Rightarrow> (None, st3)))))"

text \<open>
  The strategies of worksheet creation as the specification lists them, and a cascade in
  its words: the strategies are attempted in order until one succeeds.
\<close>

definition worksheet_strategies :: "nat \<Rightarrow> string \<Rightarrow> string list \<Rightarrow> port_op list" where
  "worksheet_strategies now name existing =
     [if name \<in> set existing then GetItem name else AddSheet name,
      AddSheet (name @ ''_'' @ digits_of now),
      AddSheetBefore name 0]"

fun cascade :: "port \<Rightarrow> port_op list \<Rightarrow> (port_op \<times> bool) list \<times> port_op option" where
  "cascade p [] = ([], None)"
| "cascade p (opn # rest) =
     (if p opn then (let (tr, r) = cascade p rest in ((opn, False) # tr, r))
      else ([(opn, True)], Some opn))"

definition sheet_of_strategy :: "port_op \<Rightarrow> string" where
  "sheet_of_strategy opn =
     (case opn of GetItem n \<Rightarrow> n | AddSheet n \<Rightarrow> n | AddSheetBefore n pos \<Rightarrow> n | _ \<Rightarrow> [])"














section \<open>Example data\<close>

text \<open>A worksheet that holds a grid with its top left cell at a given place, and is empty elsewhere.\<close>

definition sheet_with :: "grid \<Rightarrow> nat \<Rightarrow> nat \<Rightarrow> nat \<times> nat \<Rightarrow> cell" where
  "sheet_with g r0 c0 =
     (\<lambda>(r, c). if r0 \<le> r \<and> r - r0 < length g \<and> c0 \<le> c \<and> c - c0 < length (g ! (r - r0))
               then g ! (r - r0) ! (c - c0) else CStr [])"

definition example_values :: grid where
  "example_values =
     [[CStr ''Date'', CStr ''Amount'', CStr ''Notes''],
      [CStr ''Jan 1'', CNum (Fin 10), CStr ''a''],
      [CStr ''Jan 2'', CNum (Fin 20), CStr ''b''],
      [CStr ''Jan 3'', CNum (Fin 30), CStr ''c'']]"

text \<open>The selection A1:C4 with the example values.\<close>

definition example_workbook :: workbook where
  "example_workbook =
     \<lparr>cells = sheet_with example_values 0 0, numberFormat = (\<lambda>rc. ''General''),
      selection = \<lparr>rowIndex = 0, columnIndex = 0, rowCount = 4, columnCount = 3\<rparr>\<rparr>"

definition ledger_values :: grid where
  "ledger_values =
     [[CStr ''Amount'', CStr ''Cost''],
      [CNum (Fin 10), CNum (Fin 1)],
      [CNum (Fin 20), CNum (Fin 2)]]"

text \<open>The selection B2:C4 with the ledger values.\<close>

definition ledger_workbook :: workbook where
  "ledger_workbook =
     \<lparr>cells = sheet_with ledger_values 1 1, numberFormat = (\<lambda>rc. ''General''),
      selection = \<lparr>rowIndex = 1, columnIndex = 1, rowCount = 3, columnCount = 2\<rparr>\<rparr>"

text \<open>The selection A1:B1: a header row and no data row.\<close>

definition header_only_workbook :: workbook where
  "header_only_workbook =
     \<lparr>cells = sheet_with [[CStr ''Amount'', CStr ''Cost'']] 0 0,
      numberFormat = (\<lambda>rc. ''General''),
      selection = \<lparr>rowIndex = 0, columnIndex = 0, rowCount = 1, columnCount = 2\<rparr>\<rparr>"

text \<open>
  An environment in which no spreadsheet call throws, the three object operations succeed
  without touching the cells, and the endpoint answers. How numbers print plays no part in
  the examples.
\<close>

definition example_env :: env where
  "example_env =
     \<lparr>nts = (\<lambda>n. ''n''), excel = (\<lambda>opn. False),
      run_createSamplePivotTable = (\<lambda>r wb. (True, wb)),
      run_createChart = (\<lambda>k r title wb. (True, wb)),
      run_applyFormulaToSelection = (\<lambda>formula wb. (True, wb)),
      apiKey = ''key'', post = (\<lambda>req. Inr (Choices [''reply'']))\<rparr>"

text \<open>The same, where reading the snapshot at the start of the turn throws.\<close>

definition no_snapshot_env :: env where
  "no_snapshot_env = example_env\<lparr>excel := (\<lambda>opn. opn = LoadSnapshot)\<rparr>"

definition example_sheets :: sheets where
  "example_sheets =
     \<lparr>sheetNames = [''Sheet1'', ''PivotTable''], activeSheet = ''Sheet1'',
      sheetValues = (\<lambda>n. if n = ''Sheet1'' then sheet_with example_values 0 0 else (\<lambda>rc. CStr [])),
      assigned = [], tables = [], pivotTables = [], journal = []\<rparr>"

text \<open>
  The selection A1:A5 with a column whose exact sum is 0 and whose sum in doubles is -2:
  \<open>1e16 + 1\<close> is \<open>1e16\<close> again.
\<close>

definition rounding_workbook :: workbook where
  "rounding_workbook =
     \<lparr>cells = sheet_with [[CNum (Fin 10000000000000000)], [CNum (Fin 1)], [CNum (Fin 1)],
                           [CNum (Fin (- 10000000000000000))], [CNum (Fin (- 2))]] 0 0,
      numberFormat = (\<lambda>rc. ''General''),
      selection = \<lparr>rowIndex = 0, columnIndex = 0, rowCount = 5, columnCount = 1\<rparr>\<rparr>"


definition failing_endpoint :: "request \<Rightarrow> thrown + response" where
  "failing_endpoint req =
     Inl \<lparr>response_message = None, error_message = Some ''Network Error''\<rparr>"

section \<open>Verified properties\<close>

subsection \<open>Lists and folds\<close>

lemma findIndex_None: "findIndex p xs = None \<longleftrightarrow> (\<forall>i<length xs. \<not> p (xs ! i))"
proof (induction xs)
  case Nil then show ?case by simp
next
  case (Cons x xs)
  show ?case
  proof (cases "p x")
    case True then show ?thesis by auto
  next
    case False
    have "(\<forall>i<length (x # xs). \<not> p ((x # xs) ! i)) \<longleftrightarrow> (\<forall>i<length xs. \<not> p (xs ! i))"
      using False by (auto simp: nth_Cons split: nat.splits)
    with Cons False show ?thesis by simp
  qed
qed

lemma findIndex_Some:
  "findIndex p xs = Some k \<longleftrightarrow> (k < length xs \<and> p (xs ! k) \<and> (\<forall>j<k. \<not> p (xs ! j)))"
proof (induction xs arbitrary: k)
  case Nil then show ?case by simp
next
  case (Cons x xs)
  show ?case
  proof (cases "p x")
    case True
    then show ?thesis by (cases k) auto
  next
    case False
    show ?thesis
    proof (cases k)
      case 0 with False show ?thesis by auto
    next
      case (Suc m)
      have "(\<forall>j<Suc m. \<not> p ((x # xs) ! j)) \<longleftrightarrow> (\<forall>j<m. \<not> p (xs ! j))"
        using False by (auto simp: nth_Cons split: nat.splits)
      with Cons[of m] False Suc show ?thesis by auto
    qed
  qed
qed

lemma findIndex_Least:
  "findIndex p xs =
     (if \<exists>i<length xs. p (xs ! i) then Some (LEAST i. i < length xs \<and> p (xs ! i)) else None)"
proof (cases "findIndex p xs")
  case None
  then show ?thesis by (auto simp: findIndex_None)
next
  case (Some k)
  then have k: "k < length xs" "p (xs ! k)" "\<forall>j<k. \<not> p (xs ! j)"
    by (simp_all add: findIndex_Some)
  have "(LEAST i. i < length xs \<and> p (xs ! i)) = k"
    by (rule Least_equality) (use k in \<open>auto simp: not_less[symmetric]\<close>)
  with Some k show ?thesis by auto
qed

lemma addCell_coerce: "addCell s c = js_add s (coerce c)"
  by (cases c; cases s) (auto simp: addCell_def coerce_def isNaN_def Let_def)

lemma foldl_rows: "foldl (\<lambda>s row. foldl f s row) a vs = foldl f a (concat vs)"
  by (induction vs arbitrary: a) simp_all

lemma addCell_fold: "foldl addCell a cs = foldl (\<lambda>s c. js_add s (coerce c)) a cs"
  by (induction cs arbitrary: a) (simp_all add: addCell_coerce)

lemma sum_selection_spec: "sum_selection vs = sumCells_spec (concat vs)"
  unfolding sum_selection_def sumCells_spec_def
  by (simp add: foldl_rows addCell_fold)

lemma column_fold:
  "foldl (\<lambda>s row. addCell s (cell_at row col)) a rows
     = foldl (\<lambda>s c. js_add s (coerce c)) a (map (\<lambda>row. cell_at row col) rows)"
  by (induction rows arbitrary: a) (simp_all add: addCell_coerce)

lemma sum_column_spec:
  "sum_column vs col = sumCells_spec (map (\<lambda>row. cell_at row col) (tl vs))"
  unfolding sum_column_def sumCells_spec_def by (rule column_fold)

lemma columnSums_spec:
  "columnSums (row0 # rows) =
     Some (map (\<lambda>col. sumCells_spec (map (\<lambda>row. cell_at row col) (row0 # rows)))
             [0..<length row0])"
  unfolding columnSums_def sumCells_spec_def by (simp add: column_fold)

lemma sumCells_example:
  "sumCells_spec [CNum (Fin 10), CStr ''20'', CStr ''abc'', CNull, CNum (Fin (11 / 2))] = Fin (71 / 2)"
  by code_simp

lemma parse_examples:
  "parseFloat ''20'' = Fin 20" "parseFloat ''abc'' = NaN" "parseFloat [] = NaN"
  by code_simp+

lemma header_equals_CStr:
  "header_equals pr name (CStr t) = (toLowerCase t = toLowerCase name)"
  by (simp add: header_equals_def toString_opt_def)

lemma header_contains_CStr:
  "header_contains pr name (CStr t) = str_includes (toLowerCase t) (toLowerCase name)"
  by (simp add: header_contains_def toString_opt_def)

lemma lower_examples:
  "toLowerCase ''Amount'' = ''amount''"
  "toLowerCase ''Total Cost'' = ''total cost''"
  "toLowerCase ''amount'' = ''amount''"
  "toLowerCase ''cost'' = ''cost''"
  "\<not> str_includes ''amount'' ''cost''"
  "str_includes ''total cost'' ''cost''"
  by code_simp+

text \<open>
  C7. Column-name resolution compares in lower case and prefers equality to containment:
  the leftmost header equal to the name if there is one, else the leftmost header that
  contains it, else not found; a name that is not found is passed over and the loop goes on
  with the next name. With the headers Amount and Total Cost, amount resolves to 0 and
  cost to 1.
\<close>

theorem column_resolution_policy:
  "colIndex_of pr headers name =
     (if \<exists>i<length headers. header_equals pr name (headers ! i)
      then Some (LEAST i. i < length headers \<and> header_equals pr name (headers ! i))
      else if \<exists>i<length headers. header_contains pr name (headers ! i)
      then Some (LEAST i. i < length headers \<and> header_contains pr name (headers ! i))
      else None)
   \<and> (colIndex_of pr (hd vs) name = None \<longrightarrow>
        sumColumns_loop pr p sel vs (CStr name # rest) found wb
          = sumColumns_loop pr p sel vs rest found wb)
   \<and> colIndex_of pr [CStr ''Amount'', CStr ''Total Cost''] ''amount'' = Some 0
   \<and> colIndex_of pr [CStr ''Amount'', CStr ''Total Cost''] ''cost'' = Some 1"
proof (intro conjI impI)
  show "colIndex_of pr headers name =
     (if \<exists>i<length headers. header_equals pr name (headers ! i)
      then Some (LEAST i. i < length headers \<and> header_equals pr name (headers ! i))
      else if \<exists>i<length headers. header_contains pr name (headers ! i)
      then Some (LEAST i. i < length headers \<and> header_contains pr name (headers ! i))
      else None)"
    unfolding colIndex_of_def
    by (auto simp: findIndex_Least[of "header_equals pr name"]
                   findIndex_Least[of "header_contains pr name"])
next
  assume "colIndex_of pr (hd vs) name = None"
  then show "sumColumns_loop pr p sel vs (CStr name # rest) found wb
          = sumColumns_loop pr p sel vs rest found wb"
    by simp
next
  show "colIndex_of pr [CStr ''Amount'', CStr ''Total Cost''] ''amount'' = Some 0"
    by (simp add: colIndex_of_def header_equals_CStr lower_examples)
next
  show "colIndex_of pr [CStr ''Amount'', CStr ''Total Cost''] ''cost'' = Some 1"
    by (simp add: colIndex_of_def header_equals_CStr header_contains_CStr lower_examples
             del: str_includes.simps)
qed

theorem column_resolution_policy_witness:
  "colIndex_of (\<lambda>n. []) (hd example_values) ''price'' = None
   \<and> fst (sumSpecificColumns (\<lambda>n. []) (\<lambda>opn. False) [CStr ''price'', CStr ''amount''] example_workbook)
   \<and> cells (snd (sumSpecificColumns (\<lambda>n. []) (\<lambda>opn. False) [CStr ''price'', CStr ''amount'']
                    example_workbook)) (4, 1) = CNum (Fin 60)"
proof -
  have h: "colIndex_of (\<lambda>n. []) (hd example_values) ''price'' = None"
    by code_simp
  have v: "range_values example_workbook (selection example_workbook) = example_values"
    by code_simp
  have skip: "sumColumns_loop (\<lambda>n. []) (\<lambda>opn. False) (selection example_workbook) example_values
                (CStr ''price'' # [CStr ''amount'']) False example_workbook
              = sumColumns_loop (\<lambda>n. []) (\<lambda>opn. False) (selection example_workbook) example_values
                  [CStr ''amount''] False example_workbook"
    using column_resolution_policy[of "\<lambda>n. []" "hd example_values" "''price''" example_values
            "\<lambda>opn. False" "selection example_workbook" "[CStr ''amount'']" False example_workbook] h
    by blast
  have l: "length example_values = 4" by code_simp
  have run: "sumSpecificColumns (\<lambda>n. []) (\<lambda>opn. False) [CStr ''price'', CStr ''amount''] example_workbook
             = sumColumns_loop (\<lambda>n. []) (\<lambda>opn. False) (selection example_workbook) example_values
                  [CStr ''amount''] False example_workbook"
    unfolding sumSpecificColumns_def using skip by (simp add: v l Let_def)
  have a: "fst (sumColumns_loop (\<lambda>n. []) (\<lambda>opn. False) (selection example_workbook) example_values
                  [CStr ''amount''] False example_workbook)"
    by code_simp
  have b: "cells (snd (sumColumns_loop (\<lambda>n. []) (\<lambda>opn. False) (selection example_workbook)
                  example_values [CStr ''amount''] False example_workbook)) (4, 1) = CNum (Fin 60)"
    by code_simp
  show ?thesis using h a b by (simp add: run)
qed

text \<open>
  C8. Summation adds a number as it is and a string as the number \<open>parseFloat\<close> reads from
  it; a string without a number, a boolean and an empty or missing cell leave the sum as it
  is. The cells 10, "20", "abc", null, 5.5 sum to 35.5. The sum of the whole selection, the
  sum of a named column and the sums of the next-row operation are the aggregation of the
  specification, applied to all cells, to the column below the header row and to each column
  over all rows.
\<close>

theorem sumCells_coercion:
  "sumCells_spec [CNum (Fin 10), CStr ''20'', CStr ''abc'', CNull, CNum (Fin (11 / 2))] = Fin (71 / 2)
   \<and> sum_selection [[CNum (Fin 10), CStr ''20'', CStr ''abc'', CNull, CNum (Fin (11 / 2))]] = Fin (71 / 2)
   \<and> addCell s (CNum n) = js_add s n
   \<and> addCell s (CStr t) = (if parseFloat t = NaN then s else js_add s (parseFloat t))
   \<and> addCell s (CBool b) = s
   \<and> addCell s CNull = s
   \<and> addCell s (CStr ''abc'') = s
   \<and> addCell s (CStr []) = s
   \<and> sum_selection vs = sumCells_spec (concat vs)
   \<and> sum_column vs col = sumCells_spec (map (\<lambda>row. cell_at row col) (tl vs))
   \<and> columnSums (row0 # rows)
       = Some (map (\<lambda>col. sumCells_spec (map (\<lambda>row. cell_at row col) (row0 # rows)))
                 [0..<length row0])"
  using sumCells_example sum_selection_spec[of vs] sum_column_spec[of vs col]
        columnSums_spec[of row0 rows]
        sum_selection_spec[of "[[CNum (Fin 10), CStr ''20'', CStr ''abc'', CNull, CNum (Fin (11 / 2))]]"]
  by (simp add: addCell_def isNaN_def Let_def parse_examples)

text \<open>
  C9. The completion service fails closed: whatever the credential, the endpoint, the
  history, the query and the data, it returns a string and no exception leaves it. Without
  a credential it returns the fixed explanation and posts nothing; when the call throws, it
  returns the error text made from what was thrown.
\<close>

theorem completion_fails_closed:
  "(\<exists>reply. fst (getOpenAIResponse key endpoint h q d) = Inr reply)
   \<and> getOpenAIResponse [] endpoint h q d
       = (Inr ''Error: API key configuration is missing. Please check the setup.'', [])
   \<and> getOpenAIResponse (getApiKey None None) endpoint h q d
       = (Inr ''Error: API key configuration is missing. Please check the setup.'', [])
   \<and> (key \<noteq> [] \<longrightarrow> endpoint (build_request key h q d) = Inl e \<longrightarrow>
        getOpenAIResponse key endpoint h q d = (Inr (error_text e), [build_request key h q d]))"
proof (intro conjI impI)
  show "\<exists>reply. fst (getOpenAIResponse key endpoint h q d) = Inr reply"
    by (auto simp: getOpenAIResponse_def completion_body_def Let_def
             split: prod.splits sum.splits response.splits list.splits)
next
  show "getOpenAIResponse [] endpoint h q d
       = (Inr ''Error: API key configuration is missing. Please check the setup.'', [])"
    by (simp add: getOpenAIResponse_def completion_body_def)
next
  show "getOpenAIResponse (getApiKey None None) endpoint h q d
       = (Inr ''Error: API key configuration is missing. Please check the setup.'', [])"
    by (simp add: getOpenAIResponse_def completion_body_def getApiKey_def)
next
  assume "key \<noteq> []" and "endpoint (build_request key h q d) = Inl e"
  then show "getOpenAIResponse key endpoint h q d
               = (Inr (error_text e), [build_request key h q d])"
    by (simp add: getOpenAIResponse_def completion_body_def Let_def)
qed

theorem completion_fails_closed_witness:
  "''key'' \<noteq> []
   \<and> failing_endpoint (build_request ''key'' [] ''hello'' None)
       = Inl \<lparr>response_message = None, error_message = Some ''Network Error''\<rparr>
   \<and> fst (getOpenAIResponse ''key'' failing_endpoint [] ''hello'' None) = Inr ''Error: Network Error''"
proof -
  have k: "''key'' \<noteq> []" by simp
  have f: "failing_endpoint (build_request ''key'' [] ''hello'' None)
             = Inl \<lparr>response_message = None, error_message = Some ''Network Error''\<rparr>"
    by (simp add: failing_endpoint_def)
  have t: "error_text \<lparr>response_message = None, error_message = Some ''Network Error''\<rparr>
             = ''Error: Network Error''"
    by (simp add: error_text_def truthy_def)
  from completion_fails_closed[of "''key''" failing_endpoint "[]" "''hello''" None
         "\<lparr>response_message = None, error_message = Some ''Network Error''\<rparr>"] k f
  have "getOpenAIResponse ''key'' failing_endpoint [] ''hello'' None
          = (Inr (error_text \<lparr>response_message = None, error_message = Some ''Network Error''\<rparr>),
             [build_request ''key'' [] ''hello'' None])"
    by blast
  with k f t show ?thesis by simp
qed

subsection \<open>The writes of the next-row operation\<close>

lemma offset_eq: "(c0 \<le> c \<and> c - c0 = n) = (c = c0 + (n::nat))"
  by auto

lemma write_sums_upto:
  "selection (foldl (\<lambda>w col.
                 if cs ! col \<noteq> Fin 0
                 then write_format (tr, c0 + col) ''0.00''
                        (write_value (tr, c0 + col) (CNum (cs ! col)) w)
                 else w) wb [0..<n]) = selection wb
   \<and> (\<forall>r c. cells (foldl (\<lambda>w col.
                 if cs ! col \<noteq> Fin 0
                 then write_format (tr, c0 + col) ''0.00''
                        (write_value (tr, c0 + col) (CNum (cs ! col)) w)
                 else w) wb [0..<n]) (r, c) =
          (if r = tr \<and> c0 \<le> c \<and> c - c0 < n \<and> cs ! (c - c0) \<noteq> Fin 0
           then CNum (cs ! (c - c0)) else cells wb (r, c)))
   \<and> (\<forall>r c. numberFormat (foldl (\<lambda>w col.
                 if cs ! col \<noteq> Fin 0
                 then write_format (tr, c0 + col) ''0.00''
                        (write_value (tr, c0 + col) (CNum (cs ! col)) w)
                 else w) wb [0..<n]) (r, c) =
          (if r = tr \<and> c0 \<le> c \<and> c - c0 < n \<and> cs ! (c - c0) \<noteq> Fin 0
           then ''0.00'' else numberFormat wb (r, c)))"
  (is "selection (?w n) = _ \<and> (\<forall>r c. cells (?w n) (r, c) = ?C n r c)
       \<and> (\<forall>r c. numberFormat (?w n) (r, c) = ?F n r c)")
proof (induction n)
  case 0
  show ?case by simp
next
  case (Suc n)
  have unroll: "?w (Suc n) =
                  (if cs ! n \<noteq> Fin 0
                   then write_format (tr, c0 + n) ''0.00''
                          (write_value (tr, c0 + n) (CNum (cs ! n)) (?w n))
                   else ?w n)"
    by simp
  from Suc.IH
  have sel: "selection (?w n) = selection wb"
    and cel: "\<And>r c. cells (?w n) (r, c) = ?C n r c"
    and fmt: "\<And>r c. numberFormat (?w n) (r, c) = ?F n r c"
    by blast+
  show ?case
  proof (cases "cs ! n = Fin 0")
    case True
    then have "?w (Suc n) = ?w n" using unroll by simp
    moreover have "\<And>r c. ?C (Suc n) r c = ?C n r c" "\<And>r c. ?F (Suc n) r c = ?F n r c"
      using True by (auto simp: less_Suc_eq)
    ultimately show ?thesis using sel cel fmt by simp
  next
    case False
    then have w: "?w (Suc n) = write_format (tr, c0 + n) ''0.00''
                          (write_value (tr, c0 + n) (CNum (cs ! n)) (?w n))"
      using unroll by simp
    have s': "selection (?w (Suc n)) = selection wb"
      unfolding w using sel by (simp add: write_format_def write_value_def)
    have c': "\<And>r c. cells (?w (Suc n)) (r, c) = ?C (Suc n) r c"
      unfolding w using cel False
      by (auto simp: write_format_def write_value_def less_Suc_eq offset_eq)
    have f': "\<And>r c. numberFormat (?w (Suc n)) (r, c) = ?F (Suc n) r c"
      unfolding w using fmt False
      by (auto simp: write_format_def write_value_def less_Suc_eq offset_eq)
    show ?thesis using s' c' f' by blast
  qed
qed

lemma write_sums_all:
  "selection (write_sums tr c0 cs wb) = selection wb
   \<and> (\<forall>r c. cells (write_sums tr c0 cs wb) (r, c) =
          (if r = tr \<and> c0 \<le> c \<and> c - c0 < length cs \<and> cs ! (c - c0) \<noteq> Fin 0
           then CNum (cs ! (c - c0)) else cells wb (r, c)))
   \<and> (\<forall>r c. numberFormat (write_sums tr c0 cs wb) (r, c) =
          (if r = tr \<and> c0 \<le> c \<and> c - c0 < length cs \<and> cs ! (c - c0) \<noteq> Fin 0
           then ''0.00'' else numberFormat wb (r, c)))"
  unfolding write_sums_def by (rule write_sums_upto)

lemma grid_of_rows:
  "0 < rowCount r \<Longrightarrow>
   grid_of f r = map (\<lambda>j. f (rowIndex r + 0, columnIndex r + j)) [0..<columnCount r]
                 # tl (grid_of f r)"
  by (simp add: grid_of_def upt_conv_Cons)

lemma columnSums_length:
  assumes "columnSums (grid_of f r) = Some cs"
  shows "length cs = columnCount r"
proof (cases "rowCount r = 0")
  case True
  then have "grid_of f r = []" by (simp add: grid_of_def)
  with assms show ?thesis by (simp add: columnSums_def)
next
  case False
  then have "0 < rowCount r" by simp
  from grid_of_rows[OF this, of f] obtain rest where
    g: "grid_of f r = map (\<lambda>j. f (rowIndex r + 0, columnIndex r + j)) [0..<columnCount r] # rest"
    by blast
  from assms show ?thesis unfolding g columnSums_def by auto
qed

text \<open>
  C10. The next-row operation writes only into the row below the selection, only under
  the columns of the selection, and only where the sum of the column is not 0: under a
  column whose sum is 0 the value and the number format stay as they were, and every cell
  of every other row stays as it was. Where it succeeds, the cell under a column with
  another sum holds that sum in the format 0.00.
\<close>

theorem sumIntoNextRow_frame:
  "selection (snd (sumIntoNextRow p wb)) = selection wb
   \<and> (\<forall>r c. r \<noteq> rowIndex (selection wb) + rowCount (selection wb) \<longrightarrow>
         cells (snd (sumIntoNextRow p wb)) (r, c) = cells wb (r, c)
         \<and> numberFormat (snd (sumIntoNextRow p wb)) (r, c) = numberFormat wb (r, c))
   \<and> (\<forall>r c. c < columnIndex (selection wb)
             \<or> columnIndex (selection wb) + columnCount (selection wb) \<le> c \<longrightarrow>
         cells (snd (sumIntoNextRow p wb)) (r, c) = cells wb (r, c)
         \<and> numberFormat (snd (sumIntoNextRow p wb)) (r, c) = numberFormat wb (r, c))
   \<and> (\<forall>cs col. columnSums (range_values wb (selection wb)) = Some cs \<longrightarrow>
         col < length cs \<longrightarrow> cs ! col = Fin 0 \<longrightarrow>
         cells (snd (sumIntoNextRow p wb))
             (rowIndex (selection wb) + rowCount (selection wb), columnIndex (selection wb) + col)
           = cells wb (rowIndex (selection wb) + rowCount (selection wb),
                       columnIndex (selection wb) + col)
         \<and> numberFormat (snd (sumIntoNextRow p wb))
             (rowIndex (selection wb) + rowCount (selection wb), columnIndex (selection wb) + col)
           = numberFormat wb (rowIndex (selection wb) + rowCount (selection wb),
                              columnIndex (selection wb) + col))
   \<and> (\<forall>cs col. columnSums (range_values wb (selection wb)) = Some cs \<longrightarrow>
         col < length cs \<longrightarrow> cs ! col \<noteq> Fin 0 \<longrightarrow> fst (sumIntoNextRow p wb) \<longrightarrow>
         cells (snd (sumIntoNextRow p wb))
             (rowIndex (selection wb) + rowCount (selection wb), columnIndex (selection wb) + col)
           = CNum (cs ! col)
         \<and> numberFormat (snd (sumIntoNextRow p wb))
             (rowIndex (selection wb) + rowCount (selection wb), columnIndex (selection wb) + col)
           = ''0.00'')"
proof (cases "columnSums (range_values wb (selection wb))")
  case None
  then show ?thesis by (simp add: sumIntoNextRow_def Let_def)
next
  case (Some cs)
  then have len: "length cs = columnCount (selection wb)"
    by (simp add: range_values_def columnSums_length)
  note w = write_sums_all[of "rowIndex (selection wb) + rowCount (selection wb)"
                             "columnIndex (selection wb)" cs wb]
  show ?thesis
  proof (cases "p LoadSelection \<or> p SyncFinal")
    case True
    then show ?thesis using Some by (auto simp: sumIntoNextRow_def Let_def)
  next
    case False
    then have run: "sumIntoNextRow p wb
                      = (True, write_sums (rowIndex (selection wb) + rowCount (selection wb))
                                 (columnIndex (selection wb)) cs wb)"
      using Some by (simp add: sumIntoNextRow_def Let_def)
    show ?thesis
      unfolding run using w Some len by auto
  qed
qed

theorem sumIntoNextRow_frame_witness:
  "columnSums (range_values example_workbook (selection example_workbook))
     = Some [Fin 0, Fin 60, Fin 0]
   \<and> fst (sumIntoNextRow (\<lambda>opn. False) example_workbook)
   \<and> cells (snd (sumIntoNextRow (\<lambda>opn. False) example_workbook)) (4, 0) = CStr []
   \<and> numberFormat (snd (sumIntoNextRow (\<lambda>opn. False) example_workbook)) (4, 0) = ''General''
   \<and> cells (snd (sumIntoNextRow (\<lambda>opn. False) example_workbook)) (4, 1) = CNum (Fin 60)
   \<and> numberFormat (snd (sumIntoNextRow (\<lambda>opn. False) example_workbook)) (4, 1) = ''0.00''
   \<and> cells (snd (sumIntoNextRow (\<lambda>opn. False) example_workbook)) (3, 1) = CNum (Fin 30)
   \<and> columnSums (range_values rounding_workbook (selection rounding_workbook))
       = Some [Fin (- 2)]
   \<and> cells (snd (sumIntoNextRow (\<lambda>opn. False) rounding_workbook)) (5, 0) = CNum (Fin (- 2))
   \<and> numberFormat (snd (sumIntoNextRow (\<lambda>opn. False) rounding_workbook)) (5, 0) = ''0.00''"
proof -
  have cs: "columnSums (range_values example_workbook (selection example_workbook))
              = Some [Fin 0, Fin 60, Fin 0]"
    by code_simp
  have ok: "fst (sumIntoNextRow (\<lambda>opn. False) example_workbook)"
    by code_simp
  have sel: "rowIndex (selection example_workbook) + rowCount (selection example_workbook) = 4"
            "columnIndex (selection example_workbook) = 0"
    by (simp_all add: example_workbook_def)
  have old: "cells example_workbook (4, 0) = CStr []"
            "numberFormat example_workbook (4, 0) = ''General''"
            "cells example_workbook (3, 1) = CNum (Fin 30)"
    by code_simp+
  note f = sumIntoNextRow_frame[of "\<lambda>opn. False" example_workbook]
  from f have other: "cells (snd (sumIntoNextRow (\<lambda>opn. False) example_workbook)) (3, 1)
                        = cells example_workbook (3, 1)"
    using sel by simp
  from f cs have zero:
    "cells (snd (sumIntoNextRow (\<lambda>opn. False) example_workbook)) (4, 0 + 0)
       = cells example_workbook (4, 0 + 0)
     \<and> numberFormat (snd (sumIntoNextRow (\<lambda>opn. False) example_workbook)) (4, 0 + 0)
       = numberFormat example_workbook (4, 0 + 0)"
    unfolding sel
    by (elim conjE allE[of _ "[Fin 0, Fin 60, Fin 0]"] allE[of _ "0::nat"]) simp
  from f cs ok have sixty:
    "cells (snd (sumIntoNextRow (\<lambda>opn. False) example_workbook)) (4, 0 + 1)
       = CNum ([Fin 0, Fin 60, Fin 0] ! 1)
     \<and> numberFormat (snd (sumIntoNextRow (\<lambda>opn. False) example_workbook)) (4, 0 + 1) = ''0.00''"
    unfolding sel
    by (elim conjE allE[of _ "[Fin 0, Fin 60, Fin 0]"] allE[of _ "1::nat"]) simp
  have rcs: "columnSums (range_values rounding_workbook (selection rounding_workbook))
               = Some [Fin (- 2)]"
    by code_simp
  have rok: "fst (sumIntoNextRow (\<lambda>opn. False) rounding_workbook)"
    by code_simp
  have rsel: "rowIndex (selection rounding_workbook) + rowCount (selection rounding_workbook) = 5"
             "columnIndex (selection rounding_workbook) = 0"
    by (simp_all add: rounding_workbook_def)
  from sumIntoNextRow_frame[of "\<lambda>opn. False" rounding_workbook] rcs rok have rounded:
    "cells (snd (sumIntoNextRow (\<lambda>opn. False) rounding_workbook)) (5, 0 + 0)
       = CNum ([Fin (- 2)] ! 0)
     \<and> numberFormat (snd (sumIntoNextRow (\<lambda>opn. False) rounding_workbook)) (5, 0 + 0) = ''0.00''"
    unfolding rsel
    by (elim conjE allE[of _ "[Fin (- 2)]"] allE[of _ "0::nat"]) simp
  show ?thesis using cs ok other zero sixty old rcs rounded by simp
qed

lemma rounded_numbers:
  "js_add (Fin 10000000000000000) (Fin 1) = Fin 10000000000000000"
  "js_add (Fin (1 / 10)) (Fin (2 / 10)) \<noteq> Fin (3 / 10)"
  "round_double 9007199254740993 = Fin 9007199254740992"
  "parseFloat ''0.1'' = Fin (3602879701896397 / 36028797018963968)"
  "parseFloat ''9007199254740993'' = Fin 9007199254740992"
  by code_simp+

subsection \<open>Worksheet creation\<close>

text \<open>
  C5. Worksheet creation attempts its strategies in the order of the specification, each
  only after the one before it has failed: reuse of the existing sheet or creation under
  the requested name, creation under the name with the time stamp, insertion at position 0.
  The first strategy that succeeds is followed by the activation of its sheet, and a sheet
  is returned only after that; when all three fail, no sheet is returned.
\<close>

theorem createWorksheet_cascade:
  "\<not> p LoadSheetNames \<longrightarrow>
     journal (snd (createWorksheet p now name st))
       = journal st @ [(LoadSheetNames, True)]
         @ fst (cascade p (worksheet_strategies now name (sheetNames st)))
         @ (case snd (cascade p (worksheet_strategies now name (sheetNames st))) of
              None \<Rightarrow> []
            | Some s \<Rightarrow> [(ActivateSheet (sheet_of_strategy s),
                          \<not> p (ActivateSheet (sheet_of_strategy s)))])
     \<and> fst (createWorksheet p now name st)
       = (case snd (cascade p (worksheet_strategies now name (sheetNames st))) of
            None \<Rightarrow> None
          | Some s \<Rightarrow> if p (ActivateSheet (sheet_of_strategy s)) then None
                      else Some (sheet_of_strategy s))
     \<and> ((\<forall>s \<in> set (worksheet_strategies now name (sheetNames st)). p s) \<longrightarrow>
          fst (createWorksheet p now name st) = None)
     \<and> (\<forall>sh. fst (createWorksheet p now name st) = Some sh \<longrightarrow>
          activeSheet (snd (createWorksheet p now name st)) = sh
          \<and> sh \<in> set (sheetNames (snd (createWorksheet p now name st)))
          \<and> last (journal (snd (createWorksheet p now name st))) = (ActivateSheet sh, True))"
  by (cases "name \<in> set (sheetNames st)"; cases "p (GetItem name)"; cases "p (AddSheet name)";
      cases "p (AddSheet (name @ ''_'' @ digits_of now))"; cases "p (AddSheetBefore name 0)";
      cases "p (ActivateSheet name)"; cases "p (ActivateSheet (name @ ''_'' @ digits_of now))";
      simp add: createWorksheet_def worksheet_strategies_def sheet_of_strategy_def
                get_item_def add_sheet_def add_sheet_before_def activate_def attempt_def Let_def)

theorem createWorksheet_cascade_witness:
  "\<not> (\<lambda>opn. opn = GetItem ''PivotTable'') LoadSheetNames
   \<and> fst (createWorksheet (\<lambda>opn. opn = GetItem ''PivotTable'') 42 ''PivotTable'' example_sheets)
       = Some ''PivotTable_42''
   \<and> journal (snd (createWorksheet (\<lambda>opn. opn = GetItem ''PivotTable'') 42 ''PivotTable''
                      example_sheets))
       = [(LoadSheetNames, True), (GetItem ''PivotTable'', False),
          (AddSheet ''PivotTable_42'', True), (ActivateSheet ''PivotTable_42'', True)]"
proof -
  have h: "\<not> (\<lambda>opn. opn = GetItem ''PivotTable'') LoadSheetNames" by simp
  have c: "cascade (\<lambda>opn. opn = GetItem ''PivotTable'')
             (worksheet_strategies 42 ''PivotTable'' (sheetNames example_sheets))
           = ([(GetItem ''PivotTable'', False), (AddSheet ''PivotTable_42'', True)],
              Some (AddSheet ''PivotTable_42''))"
    by code_simp
  have j: "journal example_sheets = []" by (simp add: example_sheets_def)
  from createWorksheet_cascade[of "\<lambda>opn. opn = GetItem ''PivotTable''" 42 "''PivotTable''"
         example_sheets] h
  show ?thesis unfolding c j by (simp add: sheet_of_strategy_def)
qed

subsection \<open>Pivot table creation\<close>







subsection \<open>The order of the intent rules\<close>

lemma perform_calls: "calls (snd (perform c f t)) = calls t @ [c]"
  by (simp add: perform_def split: prod.splits)

lemma say_calls: "calls (say text t) = calls t"
  by (simp add: say_def)

lemma performed_calls: "calls (performed t) = calls t"
  by (simp add: performed_def)

lemma next_row_request_calls: "calls (next_row_request e t) = calls t @ [Call_sumIntoNextRow]"
proof -
  obtain ok t1 where p: "perform Call_sumIntoNextRow (sumIntoNextRow (excel e))
                           (say ''I'll calculate the sums and put them in the next row...'' t)
                         = (ok, t1)"
    by (cases "perform Call_sumIntoNextRow (sumIntoNextRow (excel e))
                 (say ''I'll calculate the sums and put them in the next row...'' t)")
  have "calls t1 = calls t @ [Call_sumIntoNextRow]"
    using perform_calls[of Call_sumIntoNextRow "sumIntoNextRow (excel e)"
            "say ''I'll calculate the sums and put them in the next row...'' t"] p
    by (simp add: say_calls)
  then show ?thesis
    using p by (simp add: next_row_request_def Let_def say_calls performed_calls)
qed

lemma write_below_calls:
  "Call_sumIntoNextRow \<in> set (calls (snd (write_below e col v row t)))
     \<Longrightarrow> Call_sumIntoNextRow \<in> set (calls t)"
  by (cases col) (auto simp: write_below_def perform_def Let_def split: prod.splits)

lemma amount_cost_request_calls:
  assumes "Call_sumIntoNextRow \<in> set (calls (amount_cost_request e d t))"
  shows "Call_sumIntoNextRow \<in> set (calls t)"
proof (cases "data_values d")
  case Nil
  with assms show ?thesis by (simp add: amount_cost_request_def)
next
  case (Cons headers rest)
  let ?row = "rowCount (data_range d) + 1"
  let ?ac = "last_header_with (nts e) ''amount'' headers"
  let ?cc = "last_header_with (nts e) ''cost'' headers"
  let ?t1 = "snd (write_below e ?ac (sum_or_zero (data_values d) ?ac) ?row t)"
  let ?t2 = "snd (write_below e ?cc (sum_or_zero (data_values d) ?cc) ?row ?t1)"
  have "calls (amount_cost_request e d t) = calls ?t2"
    using Cons
    by (simp add: amount_cost_request_def Let_def say_calls performed_calls split: prod.splits)
  with assms have "Call_sumIntoNextRow \<in> set (calls ?t2)" by simp
  then have "Call_sumIntoNextRow \<in> set (calls ?t1)" by (rule write_below_calls)
  then show ?thesis by (rule write_below_calls)
qed

text \<open>
  C2, as the claim states it, fails: the request "amount and cost in the next row" matches
  the next-row phrase and holds both words, and with a selection the turn runs the
  amount-and-cost block and never calls \<open>sumIntoNextRow\<close>.
\<close>

theorem next_row_rule_counterexample:
  "rx_test next_row_pattern ''amount and cost in the next row''
   \<and> str_includes (toLowerCase ''amount and cost in the next row'') ''amount''
   \<and> str_includes (toLowerCase ''amount and cost in the next row'') ''cost''
   \<and> extractDataFromSelection (excel example_env) example_workbook \<noteq> None
   \<and> calls (handleSend example_env [] ''amount and cost in the next row'' example_workbook)
       = [Call_writeValueToCell (CNum (Fin 60)) ''B5'']
   \<and> Call_sumIntoNextRow
       \<notin> set (calls (handleSend example_env [] ''amount and cost in the next row'' example_workbook))"
proof -
  have a: "rx_test next_row_pattern ''amount and cost in the next row''" by code_simp
  have b: "str_includes (toLowerCase ''amount and cost in the next row'') ''amount''" by code_simp
  have c: "str_includes (toLowerCase ''amount and cost in the next row'') ''cost''" by code_simp
  have d: "extractDataFromSelection (excel example_env) example_workbook \<noteq> None" by code_simp
  have e: "calls (handleSend example_env [] ''amount and cost in the next row'' example_workbook)
             = [Call_writeValueToCell (CNum (Fin 60)) ''B5'']" by code_simp
  show ?thesis using a b c d unfolding e by simp
qed

text \<open>
  C2, amended. With a snapshot, rules 1 to 5 are first-match-wins: the turn runs the
  request of the earliest rule whose pattern matches and of no later one. After them, and
  whatever they did, the amount-and-cost block runs when the text holds both words, and it
  does not run the next-row operation; the next-row request runs when the text matches its
  phrase and does not hold both words.
\<close>

theorem intent_rule_precedence:
  "(rx_test sum_pattern input \<longrightarrow> first_chain e input (Some d) t = sum_request e t)
   \<and> (\<not> rx_test sum_pattern input \<longrightarrow>
        rx_test column_pattern input \<or> rx_test field_pattern input \<longrightarrow>
        first_chain e input (Some d) t = column_sum_request e input d t)
   \<and> (\<not> rx_test sum_pattern input \<longrightarrow>
        \<not> (rx_test column_pattern input \<or> rx_test field_pattern input) \<longrightarrow>
        rx_test pivot_pattern input \<longrightarrow>
        first_chain e input (Some d) t = pivot_request e d t)
   \<and> (\<not> rx_test sum_pattern input \<longrightarrow>
        \<not> (rx_test column_pattern input \<or> rx_test field_pattern input) \<longrightarrow>
        \<not> rx_test pivot_pattern input \<longrightarrow> rx_test chart_pattern input \<longrightarrow>
        first_chain e input (Some d) t = chart_request e input d t)
   \<and> (\<not> rx_test sum_pattern input \<longrightarrow>
        \<not> (rx_test column_pattern input \<or> rx_test field_pattern input) \<longrightarrow>
        \<not> rx_test pivot_pattern input \<longrightarrow> \<not> rx_test chart_pattern input \<longrightarrow>
        rx_test formula_pattern input \<longrightarrow>
        first_chain e input (Some d) t = formula_request e input t)
   \<and> (\<not> rx_test sum_pattern input \<longrightarrow>
        \<not> (rx_test column_pattern input \<or> rx_test field_pattern input) \<longrightarrow>
        \<not> rx_test pivot_pattern input \<longrightarrow> \<not> rx_test chart_pattern input \<longrightarrow>
        \<not> rx_test formula_pattern input \<longrightarrow>
        first_chain e input (Some d) t = t)
   \<and> (str_includes (toLowerCase input) ''amount'' \<and> str_includes (toLowerCase input) ''cost'' \<longrightarrow>
        second_chain e input (Some d) t = amount_cost_request e d t
        \<and> (Call_sumIntoNextRow \<in> set (calls (second_chain e input (Some d) t)) \<longrightarrow>
             Call_sumIntoNextRow \<in> set (calls t)))
   \<and> (\<not> (str_includes (toLowerCase input) ''amount'' \<and> str_includes (toLowerCase input) ''cost'') \<longrightarrow>
        rx_test next_row_pattern input \<or> str_includes (toLowerCase input) ''next row''
          \<or> str_includes (toLowerCase input) ''row below'' \<longrightarrow>
        second_chain e input (Some d) t = next_row_request e t
        \<and> calls (second_chain e input (Some d) t) = calls t @ [Call_sumIntoNextRow])
   \<and> (trim input \<noteq> [] \<longrightarrow> extractDataFromSelection (excel e) wb = Some d \<longrightarrow>
        handleSend e messages input wb
          = ask_completion e messages input (Some d)
              (second_chain e input (Some d)
                 (first_chain e input (Some d)
                    ((idle_turn wb)\<lparr>appended := [\<lparr>role = User, content = input\<rparr>]\<rparr>))))"
proof -
  have r1: "rx_test sum_pattern input \<Longrightarrow> first_chain e input (Some d) t = sum_request e t"
    by (simp add: first_chain_def)
  have r2: "\<not> rx_test sum_pattern input \<Longrightarrow>
        rx_test column_pattern input \<or> rx_test field_pattern input \<Longrightarrow>
        first_chain e input (Some d) t = column_sum_request e input d t"
    by (simp add: first_chain_def)
  have r3: "\<not> rx_test sum_pattern input \<Longrightarrow>
        \<not> (rx_test column_pattern input \<or> rx_test field_pattern input) \<Longrightarrow>
        rx_test pivot_pattern input \<Longrightarrow>
        first_chain e input (Some d) t = pivot_request e d t"
    by (simp add: first_chain_def)
  have r4: "\<not> rx_test sum_pattern input \<Longrightarrow>
        \<not> (rx_test column_pattern input \<or> rx_test field_pattern input) \<Longrightarrow>
        \<not> rx_test pivot_pattern input \<Longrightarrow> rx_test chart_pattern input \<Longrightarrow>
        first_chain e input (Some d) t = chart_request e input d t"
    by (simp add: first_chain_def)
  have r5: "\<not> rx_test sum_pattern input \<Longrightarrow>
        \<not> (rx_test column_pattern input \<or> rx_test field_pattern input) \<Longrightarrow>
        \<not> rx_test pivot_pattern input \<Longrightarrow> \<not> rx_test chart_pattern input \<Longrightarrow>
        rx_test formula_pattern input \<Longrightarrow>
        first_chain e input (Some d) t = formula_request e input t"
    by (simp add: first_chain_def)
  have r0: "\<not> rx_test sum_pattern input \<Longrightarrow>
        \<not> (rx_test column_pattern input \<or> rx_test field_pattern input) \<Longrightarrow>
        \<not> rx_test pivot_pattern input \<Longrightarrow> \<not> rx_test chart_pattern input \<Longrightarrow>
        \<not> rx_test formula_pattern input \<Longrightarrow>
        first_chain e input (Some d) t = t"
    by (simp add: first_chain_def)
  have r6: "str_includes (toLowerCase input) ''amount'' \<and> str_includes (toLowerCase input) ''cost'' \<Longrightarrow>
        second_chain e input (Some d) t = amount_cost_request e d t"
    by (simp only: second_chain_def option.distinct simp_thms if_True option.sel)
  have r6': "str_includes (toLowerCase input) ''amount'' \<and> str_includes (toLowerCase input) ''cost'' \<Longrightarrow>
        Call_sumIntoNextRow \<in> set (calls (second_chain e input (Some d) t)) \<Longrightarrow>
        Call_sumIntoNextRow \<in> set (calls t)"
    using r6 amount_cost_request_calls[of e d t] by simp
  have r7: "\<not> (str_includes (toLowerCase input) ''amount'' \<and> str_includes (toLowerCase input) ''cost'') \<Longrightarrow>
        rx_test next_row_pattern input \<or> str_includes (toLowerCase input) ''next row''
          \<or> str_includes (toLowerCase input) ''row below'' \<Longrightarrow>
        second_chain e input (Some d) t = next_row_request e t"
    by (cases "str_includes (toLowerCase input) ''amount''";
        cases "str_includes (toLowerCase input) ''cost''")
       (simp_all only: second_chain_def simp_thms if_True if_False)
  have r7': "\<not> (str_includes (toLowerCase input) ''amount'' \<and> str_includes (toLowerCase input) ''cost'') \<Longrightarrow>
        rx_test next_row_pattern input \<or> str_includes (toLowerCase input) ''next row''
          \<or> str_includes (toLowerCase input) ''row below'' \<Longrightarrow>
        calls (second_chain e input (Some d) t) = calls t @ [Call_sumIntoNextRow]"
    using r7 next_row_request_calls[of e t] by simp
  have hs: "trim input \<noteq> [] \<Longrightarrow> extractDataFromSelection (excel e) wb = Some d \<Longrightarrow>
        handleSend e messages input wb
          = ask_completion e messages input (Some d)
              (second_chain e input (Some d)
                 (first_chain e input (Some d)
                    ((idle_turn wb)\<lparr>appended := [\<lparr>role = User, content = input\<rparr>]\<rparr>)))"
    by (simp add: handleSend_def Let_def)
  show ?thesis
    by (intro conjI impI; (rule r1 r2 r3 r4 r5 r0 r6 r6' r7 r7' hs; assumption))
qed

theorem intent_rule_precedence_witness:
  "rx_test sum_pattern ''sum the amount column''
   \<and> calls (first_chain example_env ''sum the amount column''
              (Some (the (extractDataFromSelection (excel example_env) example_workbook)))
              (idle_turn example_workbook))
       = [Call_calculateAndInsertSum]
   \<and> \<not> (str_includes (toLowerCase ''put the totals in the next row'') ''amount''
          \<and> str_includes (toLowerCase ''put the totals in the next row'') ''cost'')
   \<and> rx_test next_row_pattern ''put the totals in the next row''
   \<and> calls (second_chain example_env ''put the totals in the next row''
              (Some (the (extractDataFromSelection (excel example_env) example_workbook)))
              (idle_turn example_workbook))
       = [Call_sumIntoNextRow]"
proof -
  let ?d = "the (extractDataFromSelection (excel example_env) example_workbook)"
  have a: "rx_test sum_pattern ''sum the amount column''" by code_simp
  have b: "calls (sum_request example_env (idle_turn example_workbook))
             = [Call_calculateAndInsertSum]" by code_simp
  have c: "\<not> (str_includes (toLowerCase ''put the totals in the next row'') ''amount''
              \<and> str_includes (toLowerCase ''put the totals in the next row'') ''cost'')"
    by code_simp
  have d: "rx_test next_row_pattern ''put the totals in the next row''" by code_simp
  have i: "calls (idle_turn example_workbook) = []" by (simp add: idle_turn_def)
  note first = intent_rule_precedence[where input = "''sum the amount column''"
         and e = example_env and d = ?d and t = "idle_turn example_workbook", THEN conjunct1]
  have one: "first_chain example_env ''sum the amount column'' (Some ?d) (idle_turn example_workbook)
               = sum_request example_env (idle_turn example_workbook)"
    by (rule first[THEN mp, OF a])
  note eighth = intent_rule_precedence[where input = "''put the totals in the next row''"
         and e = example_env and d = ?d and t = "idle_turn example_workbook",
         THEN conjunct2, THEN conjunct2, THEN conjunct2, THEN conjunct2, THEN conjunct2,
         THEN conjunct2, THEN conjunct2, THEN conjunct1]
  have two: "calls (second_chain example_env ''put the totals in the next row'' (Some ?d)
                      (idle_turn example_workbook))
               = calls (idle_turn example_workbook) @ [Call_sumIntoNextRow]"
    by (rule eighth[THEN mp, OF c, THEN mp, OF disjI1[OF d], THEN conjunct2])
  have three: "calls (first_chain example_env ''sum the amount column'' (Some ?d)
                        (idle_turn example_workbook)) = [Call_calculateAndInsertSum]"
    unfolding one by (rule b)
  have four: "calls (second_chain example_env ''put the totals in the next row'' (Some ?d)
                       (idle_turn example_workbook)) = [Call_sumIntoNextRow]"
    unfolding two i by simp
  show ?thesis
    by (intro conjI) (rule a three c d four)+
qed

subsection \<open>The turn on the example requests\<close>

text \<open>
  C1. On the request "sum the amount column" with the selection A1:C4 (headers Date, Amount,
  Notes and the amounts 10, 20, 30) the first rule matches, so the turn calls
  \<open>calculateAndInsertSum\<close> and nothing else: the sum of the whole selection, 60, is
  written in the format 0.00 below the first column of the selection, the cell below the
  Amount column is left as it was, and the completion service is not called. The second
  rule, which also matches this text, would have asked for the column amount, and
  \<open>sumSpecificColumns\<close> on it writes 60 below the Amount column.
\<close>

theorem amount_column_request_runs_whole_sum:
  "rx_test sum_pattern ''sum the amount column''
   \<and> rx_test column_pattern ''sum the amount column''
   \<and> calls (handleSend example_env [] ''sum the amount column'' example_workbook)
       = [Call_calculateAndInsertSum]
   \<and> cells (book (handleSend example_env [] ''sum the amount column'' example_workbook)) (4, 0)
       = CNum (Fin 60)
   \<and> numberFormat (book (handleSend example_env [] ''sum the amount column'' example_workbook)) (4, 0)
       = ''0.00''
   \<and> cells (book (handleSend example_env [] ''sum the amount column'' example_workbook)) (4, 1)
       = CStr []
   \<and> posted (handleSend example_env [] ''sum the amount column'' example_workbook) = []
   \<and> columnsToSum ''sum the amount column''
         (the (extractDataFromSelection (excel example_env) example_workbook))
       = [CStr ''amount'']
   \<and> cells (snd (sumSpecificColumns (nts example_env) (excel example_env) [CStr ''amount'']
                    example_workbook)) (4, 1) = CNum (Fin 60)"
proof -
  have a: "rx_test sum_pattern ''sum the amount column''" by code_simp
  have b: "rx_test column_pattern ''sum the amount column''" by code_simp
  have c: "calls (handleSend example_env [] ''sum the amount column'' example_workbook)
             = [Call_calculateAndInsertSum]" by code_simp
  have d: "cells (book (handleSend example_env [] ''sum the amount column'' example_workbook)) (4, 0)
             = CNum (Fin 60)" by code_simp
  have e: "numberFormat (book (handleSend example_env [] ''sum the amount column'' example_workbook))
             (4, 0) = ''0.00''" by code_simp
  have f: "cells (book (handleSend example_env [] ''sum the amount column'' example_workbook)) (4, 1)
             = CStr []" by code_simp
  have g: "posted (handleSend example_env [] ''sum the amount column'' example_workbook) = []"
    by code_simp
  have h: "columnsToSum ''sum the amount column''
             (the (extractDataFromSelection (excel example_env) example_workbook))
           = [CStr ''amount'']" by code_simp
  have i: "cells (snd (sumSpecificColumns (nts example_env) (excel example_env) [CStr ''amount'']
                         example_workbook)) (4, 1) = CNum (Fin 60)" by code_simp
  show ?thesis using a b c d e f g h i by blast
qed

text \<open>
  C3. When reading the snapshot at the start of the turn throws, so that the snapshot is
  null, the request "put the totals in the next row" still runs \<open>sumIntoNextRow\<close>, which
  writes the column sums below the selection and marks the action as performed. And with
  a selection of the header row alone, the amount-and-cost block writes two sums of 0 into
  row 2 and marks the action as performed.
\<close>

theorem next_row_runs_without_snapshot:
  "extractDataFromSelection (excel no_snapshot_env) example_workbook = None
   \<and> calls (handleSend no_snapshot_env [] ''put the totals in the next row'' example_workbook)
       = [Call_sumIntoNextRow]
   \<and> cells (book (handleSend no_snapshot_env [] ''put the totals in the next row''
                     example_workbook)) (4, 1) = CNum (Fin 60)
   \<and> actionPerformed (handleSend no_snapshot_env [] ''put the totals in the next row''
                        example_workbook)
   \<and> calls (handleSend example_env [] ''amount and cost'' header_only_workbook)
       = [Call_writeValueToCell (CNum (Fin 0)) ''A2'', Call_writeValueToCell (CNum (Fin 0)) ''B2'']
   \<and> cells (book (handleSend example_env [] ''amount and cost'' header_only_workbook)) (1, 0)
       = CNum (Fin 0)
   \<and> actionPerformed (handleSend example_env [] ''amount and cost'' header_only_workbook)"
proof -
  have a: "extractDataFromSelection (excel no_snapshot_env) example_workbook = None"
    by code_simp
  have b: "calls (handleSend no_snapshot_env [] ''put the totals in the next row'' example_workbook)
             = [Call_sumIntoNextRow]" by code_simp
  have c: "cells (book (handleSend no_snapshot_env [] ''put the totals in the next row''
                          example_workbook)) (4, 1) = CNum (Fin 60)" by code_simp
  have d: "actionPerformed (handleSend no_snapshot_env [] ''put the totals in the next row''
                              example_workbook)" by code_simp
  have e: "calls (handleSend example_env [] ''amount and cost'' header_only_workbook)
             = [Call_writeValueToCell (CNum (Fin 0)) ''A2'',
                Call_writeValueToCell (CNum (Fin 0)) ''B2'']" by code_simp
  have f: "cells (book (handleSend example_env [] ''amount and cost'' header_only_workbook)) (1, 0)
             = CNum (Fin 0)" by code_simp
  have g: "actionPerformed (handleSend example_env [] ''amount and cost'' header_only_workbook)"
    by code_simp
  show ?thesis using a b c d e f g by blast
qed

text \<open>
  C6. With the selection B2:C4 (headers Amount and Cost, two data rows) the amount-and-cost
  block addresses its targets from the corner of the sheet, not of the selection: it writes
  the sums 30 and 3 to A4 and B4. B4 is the last data cell of the Amount column, which held
  20; the cells B5 and C5 under the two columns are left as they were. The named-column sum
  on the same selection writes 30 to B5 and 3 to C5.
\<close>

theorem amount_cost_block_addresses_from_A1:
  "calls (handleSend example_env [] ''amount and cost please'' ledger_workbook)
     = [Call_writeValueToCell (CNum (Fin 30)) ''A4'', Call_writeValueToCell (CNum (Fin 3)) ''B4'']
   \<and> cells (book (handleSend example_env [] ''amount and cost please'' ledger_workbook)) (3, 0)
       = CNum (Fin 30)
   \<and> cells ledger_workbook (3, 1) = CNum (Fin 20)
   \<and> cells (book (handleSend example_env [] ''amount and cost please'' ledger_workbook)) (3, 1)
       = CNum (Fin 3)
   \<and> cells (book (handleSend example_env [] ''amount and cost please'' ledger_workbook)) (4, 1)
       = CStr []
   \<and> cells (book (handleSend example_env [] ''amount and cost please'' ledger_workbook)) (4, 2)
       = CStr []
   \<and> cells (snd (sumSpecificColumns (nts example_env) (excel example_env)
                    [CStr ''amount'', CStr ''cost''] ledger_workbook)) (4, 1) = CNum (Fin 30)
   \<and> cells (snd (sumSpecificColumns (nts example_env) (excel example_env)
                    [CStr ''amount'', CStr ''cost''] ledger_workbook)) (4, 2) = CNum (Fin 3)"
proof -
  have a: "calls (handleSend example_env [] ''amount and cost please'' ledger_workbook)
             = [Call_writeValueToCell (CNum (Fin 30)) ''A4'',
                Call_writeValueToCell (CNum (Fin 3)) ''B4'']" by code_simp
  have b: "cells (book (handleSend example_env [] ''amount and cost please'' ledger_workbook)) (3, 0)
             = CNum (Fin 30)" by code_simp
  have c: "cells ledger_workbook (3, 1) = CNum (Fin 20)" by code_simp
  have d: "cells (book (handleSend example_env [] ''amount and cost please'' ledger_workbook)) (3, 1)
             = CNum (Fin 3)" by code_simp
  have e: "cells (book (handleSend example_env [] ''amount and cost please'' ledger_workbook)) (4, 1)
             = CStr []" by code_simp
  have f: "cells (book (handleSend example_env [] ''amount and cost please'' ledger_workbook)) (4, 2)
             = CStr []" by code_simp
  have g: "cells (snd (sumSpecificColumns (nts example_env) (excel example_env)
                         [CStr ''amount'', CStr ''cost''] ledger_workbook)) (4, 1) = CNum (Fin 30)"
    by code_simp
  have h: "cells (snd (sumSpecificColumns (nts example_env) (excel example_env)
                         [CStr ''amount'', CStr ''cost''] ledger_workbook)) (4, 2) = CNum (Fin 3)"
    by code_simp
  show ?thesis using a b c d e f g h by blast
qed

end
